(* ===== verification/Prelude.thy ===== *)
theory Prelude
  imports Main "HOL-Library.Sublist"
begin

text \<open>
  Shared vocabulary of the development. Python's \<open>str\<close> is a sequence of Unicode
  code points, so a Python string is modelled as a list of natural numbers
  (\<open>pystr\<close>); ASCII literals of the source are written with \<open>py\<close>, code points
  beyond ASCII (the emoji of the bot's replies) by number. The collections declared
  here gather the evaluation rules of the regular-expression engine and of the
  effect monad, so that component proofs can say \<open>simp add: re_simps\<close>.
\<close>

named_theorems re_simps "evaluation rules of the regular-expression model"
named_theorems act_simps "evaluation rules of the effect monad"

type_synonym pychar = nat
type_synonym pystr = "pychar list"

definition py :: "string \<Rightarrow> pystr" where
  "py s = map of_char s"

abbreviation NL :: pychar where "NL \<equiv> 10"
abbreviation STAR :: pychar where "STAR \<equiv> 42"
abbreviation QUOTE :: pychar where "QUOTE \<equiv> 34"

text \<open>
  Python's \<open>str.isspace\<close>, which is also what \<open>\s\<close> matches in a \<open>str\<close> pattern:
  the ASCII controls 9--13 and 28--31, the space, and the Unicode spaces.
\<close>

definition py_isspace :: "pychar \<Rightarrow> bool" where
  "py_isspace c \<longleftrightarrow>
     (9 \<le> c \<and> c \<le> 13) \<or> (28 \<le> c \<and> c \<le> 32) \<or> c = 133 \<or> c = 160 \<or> c = 5760 \<or>
     (8192 \<le> c \<and> c \<le> 8202) \<or> c = 8232 \<or> c = 8233 \<or> c = 8239 \<or> c = 8287 \<or> c = 12288"

text \<open>\<open>str(x)\<close> of a value that may be \<open>None\<close>, as an f-string prints it.\<close>

definition py_str_opt :: "pystr option \<Rightarrow> pystr" where
  "py_str_opt v = (case v of None \<Rightarrow> py ''None'' | Some s \<Rightarrow> s)"

lemma py_Nil [simp]: "py [] = []"
  and py_Cons [simp]: "py (c # cs) = of_char c # py cs"
  and py_append [simp]: "py (xs @ ys) = py xs @ py ys"
  by (simp_all add: py_def)

lemma length_py [simp]: "length (py s) = length s"
  by (simp add: py_def)

lemma py_ascii_lt: "c \<in> set (py s) \<Longrightarrow> c < 256"
  by (auto simp: py_def)

lemma py_isspace_ascii [simp]:
  "py_isspace 32" "py_isspace 9" "py_isspace NL" "\<not> py_isspace STAR"
  by (simp_all add: py_isspace_def)

lemma not_space_NL_free: "\<not> py_isspace c \<Longrightarrow> c \<noteq> NL"
  by (auto simp: py_isspace_def)

subsection \<open>Lists\<close>

lemma filter_eq_ConsD: "filter P xs = y # ys \<Longrightarrow> P y \<and> y \<in> set xs"
  by (auto simp: filter_eq_Cons_iff)

lemma map_filter_eq_Nil: "List.map_filter f xs = [] \<longleftrightarrow> (\<forall>x \<in> set xs. f x = None)"
  by (induction xs) (auto split: option.split)

lemma find_SomeD: "find P xs = Some x \<Longrightarrow> P x \<and> x \<in> set xs"
  by (auto simp: find_Some_iff)

lemma length_takeWhile_dropWhile:
  "length (takeWhile P xs) + length (dropWhile P xs) = length xs"
  by (induction xs) auto

lemma length_dropWhile_less:
  "0 < length (takeWhile P xs) \<Longrightarrow> length (dropWhile P xs) < length xs"
  using length_takeWhile_dropWhile [of P xs] by linarith

lemma suffix_dropWhile [simp]: "suffix (dropWhile P xs) xs"
  unfolding suffix_def by (rule exI [where x = "takeWhile P xs"]) simp

lemma suffix_Cons_tl [simp]: "suffix ys (y # ys)"
  by (simp add: suffix_def)

lemma drop_length_takeWhile [simp]:
  "drop (length (takeWhile P xs)) xs = dropWhile P xs"
  by (induction xs) auto

lemma take_length_takeWhile [simp]:
  "take (length (takeWhile P xs)) xs = takeWhile P xs"
  by (induction xs) auto

lemma take_diff_dropWhile [simp]:
  "take (length xs - length (dropWhile P xs)) xs = takeWhile P xs"
proof -
  have "length xs - length (dropWhile P xs) = length (takeWhile P xs)"
    using length_takeWhile_dropWhile [of P xs] by simp
  then show ?thesis by simp
qed

end
