(* ===== verification/SlackClient.thy ===== *)
theory SlackClient
  imports Prelude
begin

text \<open>
  The Slack side of the bot (\<open>SlackClient\<close>, \<open>slack.py\<close> lines 9--34) and
  the effect model every handler is written in. An action of type \<open>'a act\<close>
  reads the environment (what Slack and the research agent answer), appends the
  externally visible effects it causes to a trace, and ends with a value or a
  Python exception. \<open>try/except\<close> is \<open>catch\<close>, a propagating exception is
  \<open>throw\<close>. The environment is read-only: the code keeps no state of its own
  between events.
\<close>

datatype exn = SlackApiError pystr | TypeError | KeyError pystr | IndexError | AgentError pystr | BoltError

text \<open>Where a message goes: a named channel (the SDK argument may be \<open>None\<close>)
  or the conversation the event came from, which Bolt's \<open>say\<close> posts to.\<close>

datatype dest = Channel "pystr option" | Conversation

record agent_input =
  ai_messages :: "(pystr \<times> pystr) list"
  ai_max_research_loops :: int
  ai_initial_search_query_count :: int

datatype effect =
    UsersInfo pystr
  | PostMessage dest pystr
  | Print pystr
  | Ack
  | InvokeAgent agent_input
  | ListenerError exn

text \<open>The fields of a \<open>users.info\<close> answer that the code reads.\<close>

record raw_user =
  ru_id :: "pystr option"
  ru_name :: "pystr option"
  ru_real_name :: "pystr option"
  ru_profile_email :: "pystr option"

record user_info =
  ui_id :: "pystr option"
  ui_name :: "pystr option"
  ui_real_name :: "pystr option"
  ui_email :: "pystr option"

record env =
  users_api :: "pystr \<Rightarrow> pystr + raw_user"
  post_api :: "dest \<Rightarrow> pystr \<Rightarrow> pystr option"
  agent_api :: "agent_input \<Rightarrow> pystr + pystr list"

text \<open>\<open>SlackClient.__init__\<close> (lines 10--12): the token, and the Web API client made
  with it. The answers of that client are the environment \<open>env\<close>.\<close>

record slack_client =
  sc_bot_token :: "pystr option"
  sc_web_client_token :: "pystr option"

definition new_slack_client :: "pystr option \<Rightarrow> slack_client" where
  "new_slack_client tok = \<lparr>sc_bot_token = tok, sc_web_client_token = tok\<rparr>"

type_synonym 'a act = "env \<Rightarrow> effect list \<Rightarrow> (exn + 'a) \<times> effect list"

subsection \<open>The monad\<close>

definition ret :: "'a \<Rightarrow> 'a act" where
  "ret x = (\<lambda>e t. (Inr x, t))"

definition throw :: "exn \<Rightarrow> 'a act" where
  "throw x = (\<lambda>e t. (Inl x, t))"

definition bindA :: "'a act \<Rightarrow> ('a \<Rightarrow> 'b act) \<Rightarrow> 'b act" where
  "bindA m f = (\<lambda>e t. case m e t of (Inl x, t') \<Rightarrow> (Inl x, t') | (Inr a, t') \<Rightarrow> f a e t')"

definition catch :: "'a act \<Rightarrow> (exn \<Rightarrow> 'a act) \<Rightarrow> 'a act" where
  "catch m h = (\<lambda>e t. case m e t of (Inl x, t') \<Rightarrow> h x e t' | (Inr a, t') \<Rightarrow> (Inr a, t'))"

definition emit :: "effect \<Rightarrow> unit act" where
  "emit f = (\<lambda>e t. (Inr (), t @ [f]))"

definition ask :: "env act" where
  "ask = (\<lambda>e t. (Inr e, t))"

text \<open>\<open>d[k]\<close> on a dictionary entry that may be absent.\<close>

definition get_key :: "'a option \<Rightarrow> pystr \<Rightarrow> 'a act" where
  "get_key v k = (case v of None \<Rightarrow> throw (KeyError k) | Some x \<Rightarrow> ret x)"

subsection \<open>The Slack Web API and the agent, as calls\<close>

definition users_info_api :: "pystr \<Rightarrow> raw_user act" where
  "users_info_api uid =
     bindA (emit (UsersInfo uid)) (\<lambda>_. bindA ask (\<lambda>e.
       case users_api e uid of Inl code \<Rightarrow> throw (SlackApiError code) | Inr u \<Rightarrow> ret u))"

definition chat_post :: "dest \<Rightarrow> pystr \<Rightarrow> unit act" where
  "chat_post d txt =
     bindA (emit (PostMessage d txt)) (\<lambda>_. bindA ask (\<lambda>e.
       case post_api e d txt of Some code \<Rightarrow> throw (SlackApiError code) | None \<Rightarrow> ret ()))"

definition graph_invoke :: "agent_input \<Rightarrow> pystr list act" where
  "graph_invoke inp =
     bindA (emit (InvokeAgent inp)) (\<lambda>_. bindA ask (\<lambda>e.
       case agent_api e inp of Inl err \<Rightarrow> throw (AgentError err) | Inr msgs \<Rightarrow> ret msgs))"

text \<open>Bolt's \<open>say\<close> and \<open>ack\<close> arguments of a listener.\<close>

definition say :: "pystr \<Rightarrow> unit act" where
  "say txt = chat_post Conversation txt"

definition ack :: "unit act" where
  "ack = emit Ack"

subsection \<open>SlackClient\<close>

definition user_info_of :: "raw_user \<Rightarrow> user_info" where
  "user_info_of u =
     \<lparr>ui_id = ru_id u, ui_name = ru_name u, ui_real_name = ru_real_name u,
      ui_email = ru_profile_email u\<rparr>"

definition get_user_info :: "pystr \<Rightarrow> user_info option act" where
  "get_user_info uid =
     catch (bindA (users_info_api uid) (\<lambda>u. ret (Some (user_info_of u))))
       (\<lambda>x. case x of
              SlackApiError code \<Rightarrow>
                bindA (emit (Print (py ''[SLACK] user_info failed: %s'' @ [32] @ code))) (\<lambda>_. ret None)
            | _ \<Rightarrow> throw x)"

definition send_message :: "pystr option \<Rightarrow> pystr \<Rightarrow> bool act" where
  "send_message ch txt =
     catch (bindA (chat_post (Channel ch) txt) (\<lambda>_. ret True))
       (\<lambda>x. case x of
              SlackApiError code \<Rightarrow>
                bindA (emit (Print (py ''[SLACK] send_message failed: '' @ code))) (\<lambda>_. ret False)
            | _ \<Rightarrow> throw x)"

text \<open>Kinds of effects, for the bounds on what one event causes.\<close>

fun is_lookup :: "effect \<Rightarrow> bool" where
  "is_lookup (UsersInfo _) = True"
| "is_lookup _ = False"

fun is_agent_call :: "effect \<Rightarrow> bool" where
  "is_agent_call (InvokeAgent _) = True"
| "is_agent_call _ = False"

text \<open>What \<open>send_message\<close> prints when the post fails (lines 32--33).\<close>

definition post_failure_log :: "env \<Rightarrow> pystr option \<Rightarrow> pystr \<Rightarrow> effect list" where
  "post_failure_log e ch txt =
     (case post_api e (Channel ch) txt of
        None \<Rightarrow> []
      | Some code \<Rightarrow> [Print (py ''[SLACK] send_message failed: '' @ code)])"

subsection \<open>Monad laws and evaluation rules\<close>

lemmas act_defs = ret_def throw_def bindA_def catch_def emit_def ask_def

lemma bindA_ret [act_simps]: "bindA (ret x) f = f x"
  by (simp add: act_defs)

lemma bindA_throw [act_simps]: "bindA (throw x) f = throw x"
  by (simp add: act_defs)

lemma bindA_assoc [act_simps]: "bindA (bindA m f) g = bindA m (\<lambda>x. bindA (f x) g)"
  by (rule ext)+ (simp add: bindA_def split: prod.split sum.split)

lemma catch_ret [act_simps]: "catch (ret x) h = ret x"
  by (simp add: act_defs)

lemma catch_throw [act_simps]: "catch (throw x) h = h x"
  by (simp add: act_defs)

lemma ret_apply [act_simps]: "ret x e t = (Inr x, t)"
  and throw_apply [act_simps]: "throw y e t = (Inl y, t)"
  and emit_apply [act_simps]: "emit f e t = (Inr (), t @ [f])"
  and ask_apply [act_simps]: "ask e t = (Inr e, t)"
  by (simp_all add: act_defs)

lemma bindA_apply [act_simps]:
  "bindA m f e t = (case m e t of (Inl x, t') \<Rightarrow> (Inl x, t') | (Inr a, t') \<Rightarrow> f a e t')"
  by (simp add: bindA_def)

lemma catch_apply [act_simps]:
  "catch m h e t = (case m e t of (Inl x, t') \<Rightarrow> h x e t' | (Inr a, t') \<Rightarrow> (Inr a, t'))"
  by (simp add: catch_def)

lemma get_key_apply [act_simps]:
  "get_key v k e t = (case v of None \<Rightarrow> (Inl (KeyError k), t) | Some x \<Rightarrow> (Inr x, t))"
  by (simp add: get_key_def act_defs split: option.split)

subsection \<open>The calls, evaluated\<close>

lemma users_info_api_apply [act_simps]:
  "users_info_api uid e t =
     (case users_api e uid of Inl code \<Rightarrow> (Inl (SlackApiError code), t @ [UsersInfo uid])
                            | Inr u \<Rightarrow> (Inr u, t @ [UsersInfo uid]))"
  by (simp add: users_info_api_def act_simps split: sum.split)

lemma chat_post_apply [act_simps]:
  "chat_post d txt e t =
     (case post_api e d txt of Some code \<Rightarrow> (Inl (SlackApiError code), t @ [PostMessage d txt])
                             | None \<Rightarrow> (Inr (), t @ [PostMessage d txt]))"
  by (simp add: chat_post_def act_simps split: option.split)

lemma graph_invoke_apply [act_simps]:
  "graph_invoke inp e t =
     (case agent_api e inp of Inl err \<Rightarrow> (Inl (AgentError err), t @ [InvokeAgent inp])
                            | Inr msgs \<Rightarrow> (Inr msgs, t @ [InvokeAgent inp]))"
  by (simp add: graph_invoke_def act_simps split: sum.split)

lemma get_user_info_apply [act_simps]:
  "get_user_info uid e t =
     (case users_api e uid of
        Inl code \<Rightarrow> (Inr None, t @ [UsersInfo uid, Print (py ''[SLACK] user_info failed: %s'' @ [32] @ code)])
      | Inr u \<Rightarrow> (Inr (Some (user_info_of u)), t @ [UsersInfo uid]))"
  by (simp add: get_user_info_def act_simps split: sum.split)

lemma send_message_apply [act_simps]:
  "send_message ch txt e t =
     (Inr (post_api e (Channel ch) txt = None), t @ PostMessage (Channel ch) txt # post_failure_log e ch txt)"
  by (simp add: send_message_def post_failure_log_def act_simps split: option.split)

end
