(* ===== verification/PyRe.thy ===== *)
theory PyRe
  imports Prelude
begin

text \<open>
  The part of Python's \<open>re\<close> module the bot relies on: the three patterns of
  \<open>src/src/tools/slack.py\<close> (\<open>^search:\s*(.*)\<close>, \<open>\*{2,}\<close>, and the
  keyword \<open>ping\<close> that Bolt compiles into a pattern) are built from literal
  characters, the classes \<open>.\<close> and \<open>\s\<close>, greedy repetition \<open>{m,}\<close> (with
  \<open>*\<close> as \<open>{0,}\<close>), one capturing group and the anchor \<open>^\<close>.
  \<open>ms r b s\<close> lists every way \<open>r\<close> matches a prefix of \<open>s\<close>, in the order
  Python's backtracking matcher tries them (greedy repetition longest first); its head
  is the match \<open>re\<close> reports. The flag \<open>b\<close> says whether the current position
  is the start of the string, where \<open>^\<close> (no MULTILINE) succeeds.
  \<open>scan\<close> is the left-to-right search loop shared by \<open>re.sub\<close> and
  \<open>re.findall\<close>, with the empty-match rule of Python 3.7 and later: an empty match
  is reported, and the next search at the same position must advance.
\<close>

datatype cclass = Chr pychar | AnyNoNL | Space

fun cls_match :: "cclass \<Rightarrow> pychar \<Rightarrow> bool" where
  "cls_match (Chr d) c = (c = d)"
| "cls_match AnyNoNL c = (c \<noteq> NL)"
| "cls_match Space c = py_isspace c"

lemma cls_match_fun [simp]:
  "cls_match (Chr d) = (\<lambda>c. c = d)" "cls_match AnyNoNL = (\<lambda>c. c \<noteq> NL)" "cls_match Space = py_isspace"
  by (rule ext, simp)+

datatype rx = Emp | Atom cclass | Seq rx rx | Rep nat cclass | Grp rx | Bol

type_synonym mres = "pystr list \<times> pystr"

fun ms :: "rx \<Rightarrow> bool \<Rightarrow> pystr \<Rightarrow> mres list" where
  "ms Emp b s = [([], s)]"
| "ms (Atom c) b s =
     (case s of x # xs \<Rightarrow> if cls_match c x then [([], xs)] else [] | [] \<Rightarrow> [])"
| "ms (Seq r1 r2) b s =
     concat (map (\<lambda>(g1, s1). map (\<lambda>(g2, s2). (g1 @ g2, s2))
                               (ms r2 (b \<and> length s1 = length s) s1))
                 (ms r1 b s))"
| "ms (Rep m c) b s =
     map (\<lambda>k. ([], drop k s)) (rev [m..<Suc (length (takeWhile (cls_match c) s))])"
| "ms (Grp r) b s = map (\<lambda>(g, s1). (take (length s - length s1) s # g, s1)) (ms r b s)"
| "ms Bol b s = (if b then [([], s)] else [])"

definition first_ms :: "rx \<Rightarrow> bool \<Rightarrow> pystr \<Rightarrow> mres option" where
  "first_ms r b s = (case ms r b s of [] \<Rightarrow> None | x # _ \<Rightarrow> Some x)"

fun lit_rx :: "pystr \<Rightarrow> rx" where
  "lit_rx [] = Emp"
| "lit_rx (c # cs) = Seq (Atom (Chr c)) (lit_rx cs)"

text \<open>\<open>re.match(p, s)\<close>: group 0 (the matched prefix) followed by the groups.\<close>

definition re_match :: "rx \<Rightarrow> pystr \<Rightarrow> pystr list option" where
  "re_match r s =
     (case first_ms r True s of
       None \<Rightarrow> None
     | Some (g, rest) \<Rightarrow> Some (take (length s - length rest) s # g))"

text \<open>\<open>m.group(i)\<close>: \<open>None\<close> stands for the IndexError of a group that does not exist.\<close>

definition re_group :: "pystr list \<Rightarrow> nat \<Rightarrow> pystr option" where
  "re_group gs i = (if i < length gs then Some (gs ! i) else None)"

function scan :: "rx \<Rightarrow> bool \<Rightarrow> pystr \<Rightarrow> (pychar + pystr list) list" where
  "scan r b s =
     (case first_ms r b s of
       None \<Rightarrow> (case s of [] \<Rightarrow> [] | c # cs \<Rightarrow> Inl c # scan r False cs)
     | Some (g, rest) \<Rightarrow>
         if length rest < length s
         then Inr (take (length s - length rest) s # g) # scan r False rest
         else Inr ([] # g) #
           (case find (\<lambda>x. length (snd x) < length s) (ms r b s) of
             None \<Rightarrow> (case s of [] \<Rightarrow> [] | c # cs \<Rightarrow> Inl c # scan r False cs)
           | Some (g', rest') \<Rightarrow>
               Inr (take (length s - length rest') s # g') # scan r False rest'))"
  by pat_completeness auto
termination
  by (relation "measure (\<lambda>(r, b, s). length s)") (auto dest!: find_SomeD)

declare scan.simps [simp del]

text \<open>\<open>re.sub(p, repl, s)\<close> for a replacement string without escapes.\<close>

definition re_sub :: "rx \<Rightarrow> pystr \<Rightarrow> pystr \<Rightarrow> pystr" where
  "re_sub r repl s =
     concat (map (\<lambda>x. case x of Inl c \<Rightarrow> [c] | Inr _ \<Rightarrow> repl) (scan r True s))"

subsection \<open>First-match rules\<close>

text \<open>
  What the matcher reports is the head of \<open>ms\<close>. These rules compute it piece by
  piece for the constructs of the bot's patterns; they form the \<open>re_simps\<close>
  collection together with the unfolding rules of \<open>scan\<close>.
\<close>

lemma ms_suffix: "x \<in> set (ms r b s) \<Longrightarrow> suffix (snd x) s"
proof (induction r arbitrary: b s x)
  case (Seq r1 r2)
  then show ?case by (fastforce intro: suffix_order.trans)
qed (auto simp: suffix_drop split: list.splits if_splits)

lemma ms_lit: "ms (lit_rx w) b s = (if prefix w s then [([], drop (length w) s)] else [])"
proof (induction w arbitrary: b s)
  case (Cons c w)
  then show ?case by (cases s) auto
qed simp

declare ms_lit [re_simps]

lemma first_ms_lit [re_simps]:
  "first_ms (lit_rx w) b s = (if prefix w s then Some ([], drop (length w) s) else None)"
  by (simp add: first_ms_def ms_lit)

lemma first_ms_Bol [re_simps]: "first_ms Bol b s = (if b then Some ([], s) else None)"
  by (simp add: first_ms_def)

lemma first_ms_Rep [re_simps]:
  "first_ms (Rep m c) b s =
     (if m \<le> length (takeWhile (cls_match c) s) then Some ([], dropWhile (cls_match c) s) else None)"
  by (simp add: first_ms_def)

lemma first_ms_Grp [re_simps]:
  "first_ms (Grp r) b s = map_option (\<lambda>(g, s1). (take (length s - length s1) s # g, s1)) (first_ms r b s)"
  by (simp add: first_ms_def split: list.split)

lemma first_ms_Seq_None [re_simps]:
  "first_ms r1 b s = None \<Longrightarrow> first_ms (Seq r1 r2) b s = None"
  by (simp add: first_ms_def split: list.splits)

lemma first_ms_Seq_Some [re_simps]:
  "first_ms r1 b s = Some (g1, s1) \<Longrightarrow> first_ms r2 (b \<and> length s1 = length s) s1 = Some (g2, s2) \<Longrightarrow>
   first_ms (Seq r1 r2) b s = Some (g1 @ g2, s2)"
  by (simp add: first_ms_def split: list.splits)

text \<open>A sequence whose first part matches in at most one way, or whose second part
  always matches, reports the first match of its first part continued by the first
  match of its second part.\<close>

lemma first_ms_Seq_det [re_simps]:
  "length (ms r1 b s) \<le> 1 \<Longrightarrow>
   first_ms (Seq r1 r2) b s =
     (case first_ms r1 b s of None \<Rightarrow> None
      | Some (g1, s1) \<Rightarrow> map_option (\<lambda>(g2, s2). (g1 @ g2, s2)) (first_ms r2 (b \<and> length s1 = length s) s1))"
  by (cases "ms r1 b s") (auto simp: first_ms_def split: list.split)

lemma first_ms_Seq_total [re_simps]:
  assumes "\<And>b' s'. first_ms r2 b' s' \<noteq> None"
  shows "first_ms (Seq r1 r2) b s =
     (case first_ms r1 b s of None \<Rightarrow> None
      | Some (g1, s1) \<Rightarrow> map_option (\<lambda>(g2, s2). (g1 @ g2, s2)) (first_ms r2 (b \<and> length s1 = length s) s1))"
proof -
  have "ms r2 b' s' \<noteq> []" for b' s' using assms [of b' s'] by (auto simp: first_ms_def)
  then show ?thesis by (cases "ms r1 b s") (auto simp: first_ms_def neq_Nil_conv split: list.split)
qed

lemma first_ms_suffix: "first_ms r b s = Some (g, rest) \<Longrightarrow> suffix rest s"
  using ms_suffix [of "(g, rest)" r b s] by (simp add: first_ms_def split: list.splits)

lemma scan_no_match [re_simps]:
  "first_ms r b [] = None \<Longrightarrow> scan r b [] = []"
  "first_ms r b (c # cs) = None \<Longrightarrow> scan r b (c # cs) = Inl c # scan r False cs"
  by (simp_all add: scan.simps [of r b])

lemma scan_advancing_match [re_simps]:
  "first_ms r b s = Some (g, rest) \<Longrightarrow> length rest < length s \<Longrightarrow>
   scan r b s = Inr (take (length s - length rest) s # g) # scan r False rest"
  by (simp add: scan.simps [of r b s])

fun findall_item :: "pystr list \<Rightarrow> pystr list" where
  "findall_item [] = []"
| "findall_item (m # gs) = (if gs = [] then [m] else gs)"

text \<open>\<open>re.findall(p, s)\<close>: the whole match, or the groups, of every match.\<close>

definition re_findall :: "rx \<Rightarrow> pystr \<Rightarrow> pystr list list" where
  "re_findall r s = map findall_item (List.map_filter (\<lambda>x. case x of Inl _ \<Rightarrow> None | Inr m \<Rightarrow> Some m) (scan r True s))"

end
