(* ===== verification/Markdown.thy ===== *)
theory Markdown
  imports PyRe
begin

text \<open>
  The emphasis normalisation the handlers apply to the agent's answer before they
  post it (\<open>re.sub(r'\*{2,}', '*', ...)\<close>, \<open>slack.py\<close> lines 110 and 139):
  \<open>normalize_markdown\<close> is that call on the \<open>re\<close> model. \<open>squeeze\<close> is the
  abstract specification (drop every \<open>*\<close> that follows a \<open>*\<close>); the lemmas show
  the two agree, and that the result is idempotent, has no two adjacent markers, keeps
  every other character in order, and leaves text without \<open>**\<close> unchanged.
\<close>

definition stars_rx :: rx where
  "stars_rx = Rep 2 (Chr STAR)"

definition normalize_markdown :: "pystr \<Rightarrow> pystr" where
  "normalize_markdown s = re_sub stars_rx [STAR] s"

fun squeeze :: "pystr \<Rightarrow> pystr" where
  "squeeze (a # b # cs) = (if a = STAR \<and> b = STAR then squeeze (b # cs) else a # squeeze (b # cs))"
| "squeeze cs = cs"

subsection \<open>The scan of the marker pattern\<close>

abbreviation is_star :: "pychar \<Rightarrow> bool" where
  "is_star c \<equiv> c = STAR"

lemma first_ms_stars:
  "first_ms stars_rx b s =
     (if 2 \<le> length (takeWhile is_star s) then Some ([], dropWhile is_star s) else None)"
  by (simp add: stars_rx_def re_simps)

lemma scan_stars_run:
  assumes "2 \<le> length (takeWhile is_star s)"
  shows "scan stars_rx b s = Inr [takeWhile is_star s] # scan stars_rx False (dropWhile is_star s)"
proof -
  have "0 < length (takeWhile is_star s)" using assms by linarith
  then have "length (dropWhile is_star s) < length s" by (rule length_dropWhile_less)
  with assms show ?thesis by (simp add: first_ms_stars re_simps)
qed

lemma scan_stars_other:
  "scan stars_rx b [] = []"
  "length (takeWhile is_star (c # cs)) < 2 \<Longrightarrow> scan stars_rx b (c # cs) = Inl c # scan stars_rx False cs"
  by (simp_all add: first_ms_stars re_simps)

subsection \<open>Lemmas on \<open>squeeze\<close>\<close>

lemma squeeze_non_star [simp]: "c \<noteq> STAR \<Longrightarrow> squeeze (c # cs) = c # squeeze cs"
  by (cases cs) auto

lemma squeeze_star_run:
  "xs = [] \<or> hd xs \<noteq> STAR \<Longrightarrow> squeeze (replicate (Suc k) STAR @ xs) = STAR # squeeze xs"
proof (induction k)
  case 0
  then show ?case by (cases xs) auto
next
  case (Suc k)
  then show ?case by simp
qed

lemma takeWhile_eq_replicate:
  "takeWhile (\<lambda>x. x = a) xs = replicate (length (takeWhile (\<lambda>x. x = a) xs)) a"
  by (induction xs) auto

lemma squeeze_Cons: "\<exists>t. squeeze (c # cs) = c # t"
proof (induction "c # cs" arbitrary: c cs rule: squeeze.induct)
  case (1 a b cs)
  then show ?case by auto
qed auto

lemma squeeze_cases_star_run:
  assumes "1 \<le> length (takeWhile is_star s)"
  shows "squeeze s = STAR # squeeze (dropWhile is_star s)"
proof -
  let ?n = "length (takeWhile is_star s)"
  obtain k where k: "?n = Suc k" using assms by (cases ?n) auto
  have s: "s = replicate (Suc k) STAR @ dropWhile is_star s"
    by (metis k takeWhile_dropWhile_id takeWhile_eq_replicate)
  have "dropWhile is_star s = [] \<or> hd (dropWhile is_star s) \<noteq> STAR"
    using hd_dropWhile by blast
  then show ?thesis by (subst s) (rule squeeze_star_run)
qed

lemma squeeze_no_double: "\<not> sublist [STAR, STAR] (squeeze s)"
proof (induction s rule: squeeze.induct)
  case (1 a b cs)
  obtain t where t: "squeeze (b # cs) = b # t" using squeeze_Cons by blast
  show ?case
  proof (cases "a = STAR \<and> b = STAR")
    case True
    with "1.IH"(1) show ?thesis by simp
  next
    case False
    with "1.IH"(2) t show ?thesis by (auto simp: sublist_Cons_right)
  qed
qed (auto simp: sublist_Cons_right)

lemma squeeze_id: "\<not> sublist [STAR, STAR] s \<Longrightarrow> squeeze s = s"
  by (induction s rule: squeeze.induct) (auto simp: sublist_Cons_right)

lemma squeeze_idem: "squeeze (squeeze s) = squeeze s"
  by (rule squeeze_id [OF squeeze_no_double])

lemma filter_squeeze: "filter (\<lambda>c. c \<noteq> STAR) (squeeze s) = filter (\<lambda>c. c \<noteq> STAR) s"
  by (induction s rule: squeeze.induct) auto

lemma subseq_squeeze: "subseq (squeeze s) s"
  by (induction s rule: squeeze.induct) (auto intro: subseq_Cons')

subsection \<open>The regular-expression substitution is \<open>squeeze\<close>\<close>

abbreviation subst_star :: "pychar + pystr list \<Rightarrow> pystr" where
  "subst_star x \<equiv> (case x of Inl c \<Rightarrow> [c] | Inr _ \<Rightarrow> [STAR])"

lemma sub_scan_stars: "concat (map subst_star (scan stars_rx b s)) = squeeze s"
proof (induction "length s" arbitrary: b s rule: less_induct)
  case less
  consider (run) "2 \<le> length (takeWhile is_star s)" | (short) "length (takeWhile is_star s) < 2"
    by linarith
  then show ?case
  proof cases
    case run
    then have "0 < length (takeWhile is_star s)" by linarith
    then have "length (dropWhile is_star s) < length s" by (rule length_dropWhile_less)
    with run less.hyps show ?thesis
      by (simp add: scan_stars_run squeeze_cases_star_run)
  next
    case short
    show ?thesis
    proof (cases s)
      case Nil
      then show ?thesis by (simp add: scan_stars_other)
    next
      case (Cons c cs)
      with less.hyps have IH: "concat (map subst_star (scan stars_rx False cs)) = squeeze cs"
        by simp
      show ?thesis
      proof (cases "c = STAR")
        case True
        with short Cons have "takeWhile is_star cs = []" by (cases cs) (auto split: if_splits)
        then have "squeeze s = STAR # squeeze cs"
          using True Cons squeeze_cases_star_run [of s] by (cases cs) (auto split: if_splits)
        with short Cons IH True show ?thesis by (simp add: scan_stars_other)
      next
        case False
        with short Cons IH show ?thesis by (simp add: scan_stars_other)
      qed
    qed
  qed
qed

lemmas normalize_markdown_unfold = normalize_markdown_def re_sub_def sub_scan_stars

subsection \<open>Properties of the normalisation\<close>

text \<open>C20: the \<open>re.sub\<close> call of the handlers computes exactly \<open>squeeze\<close>: every run
  of two or more \<open>*\<close> becomes one \<open>*\<close>, and nothing else changes.\<close>

theorem normalize_markdown_is_squeeze: "normalize_markdown s = squeeze s"
  by (simp add: normalize_markdown_unfold)

text \<open>C21: normalising twice gives the same text as normalising once.\<close>

theorem normalize_markdown_idempotent:
  "normalize_markdown (normalize_markdown s) = normalize_markdown s"
  by (simp add: normalize_markdown_unfold squeeze_idem)

text \<open>C22: the posted summary never contains two adjacent emphasis markers.\<close>

theorem normalize_markdown_no_adjacent_markers: "\<not> sublist [STAR, STAR] (normalize_markdown s)"
  by (simp add: normalize_markdown_unfold squeeze_no_double)

text \<open>C23: the normalisation only deletes markers: the other characters are kept in
  their order, and the result is a subsequence of the input.\<close>

theorem normalize_markdown_keeps_text:
  "filter (\<lambda>c. c \<noteq> STAR) (normalize_markdown s) = filter (\<lambda>c. c \<noteq> STAR) s \<and>
   subseq (normalize_markdown s) s"
  by (simp add: normalize_markdown_unfold filter_squeeze subseq_squeeze)

text \<open>C24: a text is left unchanged exactly when it has no two adjacent markers.\<close>

theorem normalize_markdown_unchanged_iff:
  "normalize_markdown s = s \<longleftrightarrow> \<not> sublist [STAR, STAR] s"
proof
  assume "normalize_markdown s = s"
  then show "\<not> sublist [STAR, STAR] s"
    using squeeze_no_double [of s] by (simp add: normalize_markdown_unfold)
next
  assume "\<not> sublist [STAR, STAR] s"
  then show "normalize_markdown s = s" by (simp add: normalize_markdown_unfold squeeze_id)
qed

end
