(* ===== verification/Handlers.thy ===== *)
theory Handlers
  imports SlackClient Markdown
begin

text \<open>
  \<open>CommandHandler\<close> (\<open>slack.py\<close> lines 76--139): the three listeners the bot
  registers. Each is an action of the effect model of \<open>SlackClient\<close>; the
  event and the slash-command body are the dictionaries Bolt passes in, with the
  keys the code reads. The research agent (\<open>graph.invoke\<close>, code outside the
  sources) is the environment's \<open>agent_api\<close>: it answers the request with the
  contents of its messages or raises.
\<close>

record message_event =
  ev_user :: "pystr option"
  ev_text :: "pystr option"

record command_body =
  cb_command :: pystr
  cb_user_id :: "pystr option"
  cb_text :: "pystr option"

text \<open>\<open>CommandHandler.__init__\<close> (lines 77--78): the handler keeps the client it
  is given.\<close>

record command_handler =
  ch_client :: slack_client

definition new_command_handler :: "slack_client \<Rightarrow> command_handler" where
  "new_command_handler c = \<lparr>ch_client = c\<rparr>"

definition research_channel :: "pystr option" where
  "research_channel = Some (py ''ai-powered-services'')"

definition agent_request :: "pystr \<Rightarrow> agent_input" where
  "agent_request q =
     \<lparr>ai_messages = [(py ''user'', q)], ai_max_research_loops = 2, ai_initial_search_query_count = 3\<rparr>"

definition ping_text :: "user_info option \<Rightarrow> pystr" where
  "ping_text user =
     (case user of
       Some u \<Rightarrow> py ''Pong! Hello '' @ py_str_opt (ui_real_name u) @ [32, 128075]
     | None \<Rightarrow> py ''Pong! '' @ [129302])"

definition submitted_text :: "pystr option \<Rightarrow> pystr \<Rightarrow> pystr" where
  "submitted_text real q =
     py_str_opt real @ py '' just submitted a new Query:'' @ [NL] @
     py ''Query: '' @ [QUOTE] @ q @ [QUOTE] @ [NL] @
     py ''Thanks for reaching out! We'll get back to you soon.''"

definition start_text :: pystr where
  "start_text = py ''Starting deep research... This may take a few minutes. Please wait.''"

definition done_text :: pystr where
  "done_text = py ''Research completed. Preparing the summary...''"

text \<open>\<open>user['real_name']\<close>: a TypeError when the lookup returned \<open>None\<close>.\<close>

definition real_name_of :: "user_info option \<Rightarrow> pystr option act" where
  "real_name_of user = (case user of None \<Rightarrow> throw TypeError | Some u \<Rightarrow> ret (ui_real_name u))"

text \<open>\<open>state["messages"][-1].content\<close>: an IndexError on an empty list.\<close>

definition last_content :: "pystr list \<Rightarrow> pystr act" where
  "last_content msgs = (case msgs of [] \<Rightarrow> throw IndexError | _ \<Rightarrow> ret (last msgs))"

definition handle_ping :: "message_event \<Rightarrow> unit act" where
  "handle_ping ev =
     bindA (get_key (ev_user ev) (py ''user'')) (\<lambda>uid.
     bindA (get_user_info uid) (\<lambda>user.
     say (ping_text user)))"

text \<open>The final post, whose boolean result the handlers drop.\<close>

definition send_outcome :: "pystr \<Rightarrow> unit act" where
  "send_outcome txt = bindA (send_message research_channel txt) (\<lambda>_. ret ())"

text \<open>The part both search handlers share, from the start notice to the post of the
  normalised answer (lines 96--110 and 126--139).\<close>

definition research_and_post :: "pystr \<Rightarrow> unit act" where
  "research_and_post q =
     bindA (say start_text) (\<lambda>_.
     bindA (graph_invoke (agent_request q)) (\<lambda>msgs.
     bindA (say done_text) (\<lambda>_.
     bindA (last_content msgs) (\<lambda>content.
     send_outcome (normalize_markdown content)))))"

definition handle_search :: "message_event \<Rightarrow> pystr \<Rightarrow> unit act" where
  "handle_search ev q =
     bindA (get_key (ev_user ev) (py ''user'')) (\<lambda>uid.
     bindA (get_user_info uid) (\<lambda>user.
     bindA (real_name_of user) (\<lambda>real.
     bindA (say (submitted_text real q)) (\<lambda>_.
     research_and_post q))))"

text \<open>\<open>body.get("text", "")\<close>.\<close>

definition command_text :: "command_body \<Rightarrow> pystr" where
  "command_text body = (case cb_text body of None \<Rightarrow> [] | Some t \<Rightarrow> t)"

definition handle_deep_search :: "command_body \<Rightarrow> unit act" where
  "handle_deep_search body =
     bindA ack (\<lambda>_.
     bindA (get_key (cb_user_id body) (py ''user_id'')) (\<lambda>uid.
     bindA (get_user_info uid) (\<lambda>user.
     bindA (ret (command_text body)) (\<lambda>q.
     bindA (real_name_of user) (\<lambda>real.
     bindA (say (submitted_text real q)) (\<lambda>_.
     research_and_post q))))))"

lemma real_name_of_apply:
  "real_name_of user e t = (case user of None \<Rightarrow> (Inl TypeError, t) | Some u \<Rightarrow> (Inr (ui_real_name u), t))"
  by (simp add: real_name_of_def act_simps split: option.split)

lemma last_content_apply:
  "last_content msgs e t = (if msgs = [] then (Inl IndexError, t) else (Inr (last msgs), t))"
  by (simp add: last_content_def act_simps split: list.split)

lemmas handler_defs = handle_ping_def handle_search_def handle_deep_search_def
  real_name_of_apply last_content_apply say_def ack_def user_info_of_def

subsection \<open>The search flow, branch by branch\<close>

text \<open>
  \<open>research_and_post\<close> evaluated: every exception it can end with, and the effects
  caused before it. Each handler lemma below is this lemma after the handler's own
  prefix.
\<close>

lemma research_and_post_apply:
  "research_and_post q e t =
     (case post_api e Conversation start_text of
        Some c \<Rightarrow> (Inl (SlackApiError c), t @ [PostMessage Conversation start_text])
      | None \<Rightarrow>
     (case agent_api e (agent_request q) of
        Inl err \<Rightarrow> (Inl (AgentError err), t @ [PostMessage Conversation start_text, InvokeAgent (agent_request q)])
      | Inr msgs \<Rightarrow>
     (case post_api e Conversation done_text of
        Some c \<Rightarrow> (Inl (SlackApiError c), t @ [PostMessage Conversation start_text, InvokeAgent (agent_request q),
                                             PostMessage Conversation done_text])
      | None \<Rightarrow>
     (if msgs = [] then (Inl IndexError, t @ [PostMessage Conversation start_text, InvokeAgent (agent_request q),
                                             PostMessage Conversation done_text])
      else send_outcome (normalize_markdown (last msgs)) e
             (t @ [PostMessage Conversation start_text, InvokeAgent (agent_request q),
                   PostMessage Conversation done_text])))))"
  by (simp add: research_and_post_def handler_defs act_simps send_outcome_def
      split: option.split sum.split list.split)

lemma send_outcome_apply:
  "send_outcome txt e t =
     (Inr (), t @ PostMessage (Channel research_channel) txt # post_failure_log e research_channel txt)"
  by (simp add: send_outcome_def act_simps)

lemmas handler_simps = handler_defs act_simps research_and_post_apply send_outcome_apply

subsection \<open>Properties of the handlers\<close>

text \<open>C1: a search whose lookup, replies and agent call succeed posts, in this order,
  the acknowledgment with the sender's name and the query, the start notice, calls the
  agent once with the query and the fixed budget (2 loops, 3 initial queries), posts
  the completion notice, and posts the normalised last answer to the fixed research
  channel; a failure of that last post is only logged.\<close>

theorem handle_search_posts_summary:
  assumes "ev_user ev = Some uid" and "users_api e uid = Inr u"
    and "post_api e Conversation = (\<lambda>_. None)"
    and "agent_api e (agent_request q) = Inr msgs" and "msgs \<noteq> []"
  shows "handle_search ev q e t =
    (Inr (), t @ [UsersInfo uid, PostMessage Conversation (submitted_text (ru_real_name u) q),
                  PostMessage Conversation start_text, InvokeAgent (agent_request q),
                  PostMessage Conversation done_text,
                  PostMessage (Channel research_channel) (normalize_markdown (last msgs))] @
                 post_failure_log e research_channel (normalize_markdown (last msgs)))"
  using assms by (simp add: handler_simps)

text \<open>C2: the ping handler replies "Pong!" followed by the robot emoji when the lookup fails and
  "Pong! Hello {real_name}" followed by the waving-hand emoji with the profile's name when it succeeds,
  after exactly one lookup.\<close>

theorem handle_ping_replies:
  assumes "ev_user ev = Some uid" and "post_api e Conversation = (\<lambda>_. None)"
  shows "handle_ping ev e t =
    (Inr (), t @ UsersInfo uid #
       (case users_api e uid of
          Inl code \<Rightarrow> [Print (py ''[SLACK] user_info failed: %s'' @ [32] @ code),
                       PostMessage Conversation (py ''Pong! '' @ [129302])]
        | Inr u \<Rightarrow> [PostMessage Conversation (py ''Pong! Hello '' @ py_str_opt (ru_real_name u) @ [32, 128075])]))"
  using assms by (simp add: handler_simps ping_text_def split: sum.split)

text \<open>C3: when the lookup of the sender fails, the inline search handler does not fall
  back to a default name: subscripting the missing profile raises TypeError, so the
  user gets no acknowledgment and the agent is never called.\<close>

theorem handle_search_lookup_failure_crashes:
  assumes "ev_user ev = Some uid" and "users_api e uid = Inl code"
  shows "handle_search ev q e t =
    (Inl TypeError, t @ [UsersInfo uid, Print (py ''[SLACK] user_info failed: %s'' @ [32] @ code)])"
  using assms by (simp add: handler_simps)

text \<open>C4: the same holds for the slash command, after its acknowledgment.\<close>

theorem handle_deep_search_lookup_failure_crashes:
  assumes "cb_user_id b = Some uid" and "users_api e uid = Inl code"
  shows "handle_deep_search b e t =
    (Inl TypeError, t @ [Ack, UsersInfo uid, Print (py ''[SLACK] user_info failed: %s'' @ [32] @ code)])"
  using assms by (simp add: handler_simps)

text \<open>C9: the slash-command handler acknowledges before anything else it causes, for
  every body (an empty or missing text included) and every answer of Slack and of the
  agent.\<close>

theorem handle_deep_search_acks_first: "\<exists>rest. snd (handle_deep_search b e t) = t @ Ack # rest"
  by (auto simp: handler_simps split: option.split sum.split)

text \<open>C10: a slash command whose calls succeed runs the search flow on its text, the
  empty string when the body has none, after acknowledging.\<close>

theorem handle_deep_search_posts_summary:
  assumes "cb_user_id b = Some uid" and "users_api e uid = Inr u"
    and "post_api e Conversation = (\<lambda>_. None)"
    and "agent_api e (agent_request (command_text b)) = Inr msgs" and "msgs \<noteq> []"
  shows "handle_deep_search b e t =
    (Inr (), t @ [Ack, UsersInfo uid, PostMessage Conversation (submitted_text (ru_real_name u) (command_text b)),
                  PostMessage Conversation start_text, InvokeAgent (agent_request (command_text b)),
                  PostMessage Conversation done_text,
                  PostMessage (Channel research_channel) (normalize_markdown (last msgs))] @
                 post_failure_log e research_channel (normalize_markdown (last msgs)))"
  using assms by (simp add: handler_simps)

text \<open>C11: when the agent raises, the exception ends the handler right after the call:
  no completion notice, no summary, and no error message to the user.\<close>

theorem handle_search_agent_failure:
  assumes "ev_user ev = Some uid" and "users_api e uid = Inr u"
    and "post_api e Conversation = (\<lambda>_. None)" and "agent_api e (agent_request q) = Inl err"
  shows "handle_search ev q e t =
    (Inl (AgentError err), t @ [UsersInfo uid, PostMessage Conversation (submitted_text (ru_real_name u) q),
                                PostMessage Conversation start_text, InvokeAgent (agent_request q)])"
  using assms by (simp add: handler_simps)

text \<open>C12: an agent answer without messages raises IndexError after the completion
  notice, and nothing is posted to the research channel.\<close>

theorem handle_search_empty_answer:
  assumes "ev_user ev = Some uid" and "users_api e uid = Inr u"
    and "post_api e Conversation = (\<lambda>_. None)" and "agent_api e (agent_request q) = Inr []"
  shows "handle_search ev q e t =
    (Inl IndexError, t @ [UsersInfo uid, PostMessage Conversation (submitted_text (ru_real_name u) q),
                          PostMessage Conversation start_text, InvokeAgent (agent_request q),
                          PostMessage Conversation done_text])"
  using assms by (simp add: handler_simps)

end
