(* ===== verification/Router.thy ===== *)
theory Router
  imports Handlers
begin

text \<open>
  \<open>SlackBot._setup_routes\<close> and \<open>_search_message_handler\<close> (\<open>slack.py\<close>
  lines 150--159) with the dispatch Bolt performs for them. Bolt keeps its listeners in
  registration order and runs the first whose matcher accepts the event. A message
  listener registered with a keyword (a \<open>str\<close> or a compiled pattern) accepts a
  message whose text is non-empty and for which \<open>re.findall(keyword, text)\<close> is
  non-empty; a command listener accepts a body whose \<open>command\<close> equals its name.
  The keyword \<open>"ping"\<close> is used as a pattern as it is, so the ping listener
  accepts every text that contains \<open>ping\<close>.
\<close>

datatype inbound = MessageEv message_event | CommandEv command_body

datatype listener = PingListener | DeepSearchListener | SearchListener

definition ping_keyword :: rx where
  "ping_keyword = lit_rx (py ''ping'')"

definition search_prefix :: pystr where
  "search_prefix = py ''search:''"

definition search_rx :: rx where
  "search_rx = Seq Bol (Seq (lit_rx search_prefix) (Seq (Rep 0 Space) (Grp (Rep 0 AnyNoNL))))"

definition keyword_matches :: "rx \<Rightarrow> pystr option \<Rightarrow> bool" where
  "keyword_matches kw text =
     (let t = (case text of None \<Rightarrow> [] | Some t \<Rightarrow> t) in t \<noteq> [] \<and> re_findall kw t \<noteq> [])"

fun listener_matches :: "listener \<Rightarrow> inbound \<Rightarrow> bool" where
  "listener_matches PingListener (MessageEv ev) = keyword_matches ping_keyword (ev_text ev)"
| "listener_matches SearchListener (MessageEv ev) = keyword_matches search_rx (ev_text ev)"
| "listener_matches DeepSearchListener (CommandEv b) = (cb_command b = py ''/deep-search'')"
| "listener_matches _ _ = False"

definition registered_listeners :: "listener list" where
  "registered_listeners = [PingListener, DeepSearchListener, SearchListener]"

definition dispatch :: "inbound \<Rightarrow> listener option" where
  "dispatch ev = find (\<lambda>l. listener_matches l ev) registered_listeners"

definition search_message_handler :: "message_event \<Rightarrow> unit act" where
  "search_message_handler ev =
     bindA (get_key (ev_text ev) (py ''text'')) (\<lambda>t.
     case re_match search_rx t of
       None \<Rightarrow> ret ()
     | Some gs \<Rightarrow> (case re_group gs 1 of None \<Rightarrow> throw IndexError | Some q \<Rightarrow> handle_search ev q))"

fun run_listener :: "listener \<Rightarrow> inbound \<Rightarrow> unit act" where
  "run_listener PingListener (MessageEv ev) = handle_ping ev"
| "run_listener SearchListener (MessageEv ev) = search_message_handler ev"
| "run_listener DeepSearchListener (CommandEv b) = handle_deep_search b"
| "run_listener _ _ = ret ()"

definition handle_event :: "inbound \<Rightarrow> unit act" where
  "handle_event ev = (case dispatch ev of None \<Rightarrow> ret () | Some l \<Rightarrow> run_listener l ev)"

text \<open>The query the inline-search route extracts, as the specification describes it
  once the details of \<open>\s\<close> and \<open>.\<close> are written out: the text after the prefix
  and the whitespace that follows it, up to the first line break.\<close>

definition inline_query :: "pystr \<Rightarrow> pystr" where
  "inline_query t = takeWhile (\<lambda>c. c \<noteq> NL) (dropWhile py_isspace (drop (length search_prefix) t))"

subsection \<open>The two message patterns\<close>

lemma first_ms_search_rx:
  "first_ms search_rx b t =
     (if b \<and> prefix search_prefix t
      then Some ([inline_query t], dropWhile (\<lambda>c. c \<noteq> NL) (dropWhile py_isspace (drop (length search_prefix) t)))
      else None)"
  by (simp add: search_rx_def inline_query_def re_simps)

lemma re_findall_nonempty: "re_findall r s \<noteq> [] \<longleftrightarrow> (\<exists>m. Inr m \<in> set (scan r True s))"
proof -
  have "(\<exists>x \<in> set xs. (case x of Inl _ \<Rightarrow> None | Inr m \<Rightarrow> Some m) \<noteq> None) \<longleftrightarrow> (\<exists>m. Inr m \<in> set xs)"
    for xs :: "(pychar + pystr list) list"
    by (metis (no_types, lifting) obj_sumE option.distinct(1) sum.simps(5,6))
  then show ?thesis by (simp add: re_findall_def map_filter_eq_Nil)
qed

lemma scan_lit_has_match:
  "w \<noteq> [] \<Longrightarrow> (\<exists>m. Inr m \<in> set (scan (lit_rx w) b s)) \<longleftrightarrow> sublist w s"
proof (induction s arbitrary: b)
  case Nil
  then show ?case by (simp add: re_simps)
next
  case (Cons c cs)
  show ?case
  proof (cases "prefix w (c # cs)")
    case True
    with Cons.prems have "length (drop (length w) (c # cs)) < length (c # cs)" by simp
    with True show ?thesis by (auto simp: re_simps prefix_imp_sublist)
  next
    case False
    with Cons.IH [of False] Cons.prems show ?thesis by (simp add: re_simps sublist_Cons_right)
  qed
qed

lemma scan_without_start_match:
  "(\<And>s. first_ms r False s = None) \<Longrightarrow> Inr m \<notin> set (scan r False s)"
  by (induction s) (simp_all add: re_simps)

lemma scan_search_has_match:
  "(\<exists>m. Inr m \<in> set (scan search_rx True t)) \<longleftrightarrow> prefix search_prefix t"
proof (cases "prefix search_prefix t")
  case True
  have "length (dropWhile (\<lambda>c. c \<noteq> NL) (dropWhile py_isspace (drop (length search_prefix) t)))
        \<le> length (drop (length search_prefix) t)"
    by (meson dual_order.trans length_dropWhile_le)
  moreover have "length (drop (length search_prefix) t) < length t"
    using True by (auto simp: search_prefix_def dest: prefix_length_le)
  ultimately show ?thesis using True by (auto simp: first_ms_search_rx re_simps)
next
  case False
  then show ?thesis
    by (cases t) (simp_all add: first_ms_search_rx re_simps scan_without_start_match)
qed

lemma keyword_matches_ping: "keyword_matches ping_keyword text \<longleftrightarrow> (\<exists>t. text = Some t \<and> sublist (py ''ping'') t)"
proof -
  have ping: "(\<exists>m. Inr m \<in> set (scan ping_keyword True t)) \<longleftrightarrow> sublist (py ''ping'') t" for t
    unfolding ping_keyword_def by (rule scan_lit_has_match) simp
  show ?thesis
    by (auto simp: keyword_matches_def re_findall_nonempty ping split: option.split)
qed

lemma keyword_matches_search: "keyword_matches search_rx text \<longleftrightarrow> (\<exists>t. text = Some t \<and> prefix search_prefix t)"
  by (auto simp: keyword_matches_def re_findall_nonempty scan_search_has_match search_prefix_def
      split: option.split)

lemma re_group_search:
  "(case re_match search_rx t of None \<Rightarrow> None | Some gs \<Rightarrow> re_group gs 1) =
   (if prefix search_prefix t then Some (inline_query t) else None)"
  by (simp add: re_match_def re_group_def first_ms_search_rx)

lemma dispatch_message_eq:
  "dispatch (MessageEv ev) =
     (case ev_text ev of
        None \<Rightarrow> None
      | Some t \<Rightarrow> if sublist (py ''ping'') t then Some PingListener
                  else if prefix search_prefix t then Some SearchListener else None)"
  by (simp add: dispatch_def registered_listeners_def keyword_matches_ping keyword_matches_search
      split: option.split)

lemma search_message_handler_eq:
  "search_message_handler ev =
     (case ev_text ev of
        None \<Rightarrow> throw (KeyError (py ''text''))
      | Some t \<Rightarrow> if prefix search_prefix t then handle_search ev (inline_query t) else ret ())"
proof -
  have "\<And>t. (case re_match search_rx t of None \<Rightarrow> ret ()
               | Some gs \<Rightarrow> (case re_group gs 1 of None \<Rightarrow> throw IndexError | Some q \<Rightarrow> handle_search ev q)) =
            (if prefix search_prefix t then handle_search ev (inline_query t) else ret ())"
    by (simp add: re_match_def re_group_def first_ms_search_rx)
  then show ?thesis
    by (simp add: search_message_handler_def get_key_def act_simps split: option.split)
qed

lemma handle_event_message:
  "handle_event (MessageEv ev) =
     (case ev_text ev of
        None \<Rightarrow> ret ()
      | Some t \<Rightarrow> if sublist (py ''ping'') t then handle_ping ev
                  else if prefix search_prefix t then handle_search ev (inline_query t) else ret ())"
  by (simp add: handle_event_def dispatch_message_eq search_message_handler_eq split: option.split)

lemma handle_event_command:
  "handle_event (CommandEv b) = (if cb_command b = py ''/deep-search'' then handle_deep_search b else ret ())"
  by (simp add: handle_event_def dispatch_def registered_listeners_def)

text \<open>The rules that evaluate the handling of any event, branch by branch.\<close>

lemmas handle_event_simps = handle_event_message handle_event_command handler_simps post_failure_log_def

subsection \<open>Properties of the router\<close>

text \<open>C7: Bolt dispatches a message to the ping handler exactly when its text contains
  "ping" anywhere, and to the search handler exactly when it starts with "search:"
  and contains no "ping".\<close>

theorem dispatch_message:
  assumes "ev_text ev = Some t"
  shows "(dispatch (MessageEv ev) = Some PingListener \<longleftrightarrow> sublist (py ''ping'') t) \<and>
         (dispatch (MessageEv ev) = Some SearchListener \<longleftrightarrow>
            prefix search_prefix t \<and> \<not> sublist (py ''ping'') t)"
  using assms by (simp add: dispatch_message_eq)

text \<open>C8: a message that starts with "search:" and does not contain "ping" is handled
  exactly as \<open>handle_search\<close> on the query of the specification: the
  \<open>re.match\<close> in \<open>_search_message_handler\<close> always succeeds on it, and its group is
  \<open>inline_query\<close>.\<close>

theorem handle_event_search_refines:
  assumes "ev_text ev = Some t" and "prefix search_prefix t" and "\<not> sublist (py ''ping'') t"
  shows "handle_event (MessageEv ev) = handle_search ev (inline_query t)"
  using assms by (simp add: handle_event_message)

text \<open>C13: a message event without a \<open>user\<close> key (a message posted by another bot, or
  a subtype Slack sends without one) that reaches the ping or the search route makes the
  listener raise KeyError at \<open>event["user"]\<close> before any call.\<close>

theorem handle_event_message_without_user:
  assumes "ev_user ev = None" and "ev_text ev = Some t"
    and "sublist (py ''ping'') t \<or> prefix search_prefix t"
  shows "handle_event (MessageEv ev) e s = (Inl (KeyError (py ''user'')), s)"
  using assms by (auto simp: handle_event_message handler_simps)

text \<open>C14: the query \<open>_search_message_handler\<close> passes on is what the user typed on the
  first line: for "search:" followed by whitespace, a query that does not start with
  whitespace, and then a line break or the end of the text, \<open>re.match\<close> succeeds and
  \<open>match.group(1)\<close> is exactly that query; every later line is dropped.\<close>

theorem search_query_captured:
  assumes "\<forall>c \<in> set ws. py_isspace c" and "q \<noteq> []" and "\<not> py_isspace (hd q)"
    and "NL \<notin> set q" and "rest = [] \<or> hd rest = NL"
  shows "(case re_match search_rx (search_prefix @ ws @ q @ rest) of
            None \<Rightarrow> None | Some gs \<Rightarrow> re_group gs 1) = Some q"
proof -
  obtain c cs where q: "q = c # cs" using assms(2) by (cases q) auto
  have "dropWhile py_isspace (ws @ q @ rest) = q @ rest"
    using assms(1,3) q by (simp add: dropWhile_append3)
  moreover have "takeWhile (\<lambda>c. c \<noteq> NL) rest = []"
    using assms(5) by (cases rest) auto
  then have "takeWhile (\<lambda>c. c \<noteq> NL) (q @ rest) = q"
    using assms(4) by (induction q) auto
  ultimately show ?thesis by (simp add: re_group_search inline_query_def)
qed

end
