(* ===== verification/Bot.thy ===== *)
theory Bot
  imports Router
begin

text \<open>
  The process around the handlers: \<open>src/settings.py\<close> (three values read from the
  environment after \<open>load_dotenv()\<close>), \<open>SlackBot\<close>'s constructor,
  \<open>send_to_channel\<close> and \<open>start\<close> (\<open>slack.py\<close> lines 142--167), and
  \<open>main()\<close> of \<open>src/main.py\<close>: a greeting stamped with the local time, the
  start-up log line, then the listener loop. The loop is Bolt's: it hands every
  inbound event to \<open>handle_event\<close> and logs an exception a listener raises
  (\<open>ListenerError\<close>) instead of stopping. Here the events are handled one after the
  other; the clock is a parameter.
\<close>

type_synonym environ = "pystr \<Rightarrow> pystr option"

text \<open>\<open>load_dotenv()\<close> with its default \<open>override=False\<close>: a variable of the
  \<open>.env\<close> file is added only where the process environment has none.\<close>

definition load_dotenv :: "environ \<Rightarrow> environ \<Rightarrow> environ" where
  "load_dotenv os_env dotenv = (\<lambda>k. case os_env k of None \<Rightarrow> dotenv k | Some v \<Rightarrow> Some v)"

record slack_settings =
  st_app_token :: "pystr option"
  st_bot_token :: "pystr option"
  st_channel :: "pystr option"
  st_mode :: pystr

definition load_settings :: "environ \<Rightarrow> slack_settings" where
  "load_settings getenv =
     \<lparr>st_app_token = getenv (py ''SLACK_APP_TOKEN''), st_bot_token = getenv (py ''SLACK_BOT_TOKEN''),
      st_channel = getenv (py ''SLACK_CHANNEL''), st_mode = py ''Socket''\<rparr>"

text \<open>\<open>SlackBot.__init__\<close>: the Bolt app is made with the bot token, the handler
  shares the bot's client, and \<open>_setup_routes\<close> registers the three listeners.
  \<open>AsyncApp(token=bot_token)\<close> (line 145) falls back to \<open>SLACK_BOT_TOKEN\<close> of the
  same environment the settings were read from, and raises \<open>BoltError\<close> when there is
  no token either, before anything else is built.\<close>

record slack_bot =
  sb_app_token :: "pystr option"
  sb_bot_token :: "pystr option"
  sb_channel :: "pystr option"
  sb_app_bot_token :: "pystr option"
  sb_client :: slack_client
  sb_handler :: command_handler
  sb_listeners :: "listener list"

definition new_slack_bot :: "pystr option \<Rightarrow> pystr option \<Rightarrow> pystr option \<Rightarrow> slack_bot act" where
  "new_slack_bot app_tok bot_tok ch =
     (case bot_tok of
        None \<Rightarrow> throw BoltError
      | Some _ \<Rightarrow>
          (let client = new_slack_client bot_tok in
           ret \<lparr>sb_app_token = app_tok, sb_bot_token = bot_tok, sb_channel = ch, sb_app_bot_token = bot_tok,
                sb_client = client, sb_handler = new_command_handler client,
                sb_listeners = registered_listeners\<rparr>))"

definition send_to_channel :: "slack_bot \<Rightarrow> pystr \<Rightarrow> bool act" where
  "send_to_channel sb txt = send_message (sb_channel sb) txt"

definition start_line :: "slack_bot \<Rightarrow> pystr" where
  "start_line sb = py ''[SLACK] Starting Socket'' @ [8209] @ py ''Mode for channel '' @ py_str_opt (sb_channel sb)"

text \<open>One event as Bolt runs it: the routed listener, its exception logged.\<close>

definition run_event :: "inbound \<Rightarrow> unit act" where
  "run_event ev = catch (handle_event ev) (\<lambda>x. emit (ListenerError x))"

fun serve :: "inbound list \<Rightarrow> unit act" where
  "serve [] = ret ()"
| "serve (ev # evs) = bindA (run_event ev) (\<lambda>_. serve evs)"

text \<open>\<open>start\<close> prints the start line; \<open>AsyncSocketModeHandler(self.app, self.app_token)\<close>
  (line 166) takes \<open>app_token or os.environ["SLACK_APP_TOKEN"]\<close>, a KeyError when the
  variable is unset; otherwise \<open>start_async\<close> serves the events.\<close>

definition start :: "slack_bot \<Rightarrow> inbound list \<Rightarrow> unit act" where
  "start sb evs =
     bindA (emit (Print (start_line sb))) (\<lambda>_.
     case sb_app_token sb of
       None \<Rightarrow> throw (KeyError (py ''SLACK_APP_TOKEN''))
     | Some _ \<Rightarrow> serve evs)"

subsection \<open>The time stamp of the greeting\<close>

record clock =
  clk_hour :: nat
  clk_minute :: nat
  clk_second :: nat
  clk_weekday :: nat

text \<open>\<open>%H\<close>, \<open>%M\<close>, \<open>%S\<close>: two decimal digits, zero-padded.\<close>

definition two_digits :: "nat \<Rightarrow> pystr" where
  "two_digits n = [48 + n div 10, 48 + n mod 10]"

text \<open>\<open>%A\<close> in the C locale, with Python's numbering (Monday is 0).\<close>

fun weekday_name :: "nat \<Rightarrow> pystr" where
  "weekday_name 0 = py ''Monday''"
| "weekday_name (Suc 0) = py ''Tuesday''"
| "weekday_name (Suc (Suc 0)) = py ''Wednesday''"
| "weekday_name (Suc (Suc (Suc 0))) = py ''Thursday''"
| "weekday_name (Suc (Suc (Suc (Suc 0)))) = py ''Friday''"
| "weekday_name (Suc (Suc (Suc (Suc (Suc 0))))) = py ''Saturday''"
| "weekday_name _ = py ''Sunday''"

definition format_time :: "clock \<Rightarrow> pystr" where
  "format_time c =
     two_digits (clk_hour c) @ py '':'' @ two_digits (clk_minute c) @ py '':'' @
     two_digits (clk_second c) @ py '' on '' @ weekday_name (clk_weekday c)"

definition greeting :: "clock \<Rightarrow> pystr" where
  "greeting c = format_time c @ py '' | Hello everyone! Praxi is online and ready to help. '' @ [128522]"

text \<open>The bot \<open>main()\<close> builds from the settings.\<close>

definition main_bot :: "environ \<Rightarrow> slack_bot act" where
  "main_bot getenv =
     (let st = load_settings getenv in new_slack_bot (st_app_token st) (st_bot_token st) (st_channel st))"

definition main_run :: "environ \<Rightarrow> clock \<Rightarrow> inbound list \<Rightarrow> unit act" where
  "main_run getenv c evs =
     bindA (main_bot getenv) (\<lambda>sb. bindA (send_to_channel sb (greeting c)) (\<lambda>_. start sb evs))"





subsection \<open>Lemmas\<close>

text \<open>No handler reads the trace it extends: its result and its own effects are those
  of a run from the empty trace.\<close>

lemma handle_event_local:
  "handle_event ev e t = (fst (handle_event ev e []), t @ snd (handle_event ev e []))"
  by (cases ev)
     (auto simp: handle_event_simps split: option.split sum.split)

lemma run_event_local: "run_event ev e t = (Inr (), t @ snd (run_event ev e []))"
proof -
  obtain r out where h: "handle_event ev e [] = (r, out)" by fastforce
  then have "handle_event ev e t = (r, t @ out)" using handle_event_local [of ev e t] by simp
  with h show ?thesis by (cases r) (simp_all add: run_event_def act_simps)
qed

lemma serve_apply: "serve evs e t = (Inr (), t @ concat (map (\<lambda>ev. snd (run_event ev e [])) evs))"
proof (induction evs arbitrary: t)
  case (Cons ev evs)
  then show ?case by (simp add: act_simps run_event_local [of ev e t])
qed (simp add: act_simps)


lemma length_two_digits [simp]: "length (two_digits n) = 2"
  by (simp add: two_digits_def)


text \<open>\<open>main()\<close> evaluated: without a bot token the constructor raises before any call;
  otherwise the greeting is posted and the start line printed, and the socket-mode
  handler either raises for a missing app token or serves the events.\<close>

lemma main_run_no_bot_token:
  "getenv (py ''SLACK_BOT_TOKEN'') = None \<Longrightarrow> main_run getenv c evs e t = (Inl BoltError, t)"
  by (simp add: main_run_def main_bot_def load_settings_def new_slack_bot_def act_simps)

lemma main_run_apply:
  assumes "getenv (py ''SLACK_BOT_TOKEN'') \<noteq> None"
  shows "main_run getenv c evs e t =
     (case getenv (py ''SLACK_APP_TOKEN'') of
        None \<Rightarrow> (Inl (KeyError (py ''SLACK_APP_TOKEN'')),
                 t @ PostMessage (Channel (getenv (py ''SLACK_CHANNEL''))) (greeting c) #
                   post_failure_log e (getenv (py ''SLACK_CHANNEL'')) (greeting c) @
                   [Print (py ''[SLACK] Starting Socket'' @ [8209] @ py ''Mode for channel '' @
                           py_str_opt (getenv (py ''SLACK_CHANNEL'')))])
      | Some _ \<Rightarrow> (Inr (),
                 t @ PostMessage (Channel (getenv (py ''SLACK_CHANNEL''))) (greeting c) #
                   post_failure_log e (getenv (py ''SLACK_CHANNEL'')) (greeting c) @
                   Print (py ''[SLACK] Starting Socket'' @ [8209] @ py ''Mode for channel '' @
                          py_str_opt (getenv (py ''SLACK_CHANNEL''))) #
                   concat (map (\<lambda>ev. snd (run_event ev e [])) evs)))"
  using assms
  by (auto simp: main_run_def main_bot_def load_settings_def send_to_channel_def start_def new_slack_bot_def
      start_line_def Let_def act_simps serve_apply split: option.split)

subsection \<open>Properties of the bot process\<close>

text \<open>C17: with both tokens set, the bot first posts the time-stamped greeting to the
  configured channel (a failure is only logged), then prints the start line, and only
  then handles events, each in turn.\<close>

theorem main_run_startup_order:
  assumes "getenv (py ''SLACK_BOT_TOKEN'') \<noteq> None" and "getenv (py ''SLACK_APP_TOKEN'') \<noteq> None"
  shows "\<exists>log. snd (main_run getenv c evs e t) =
     t @ PostMessage (Channel (getenv (py ''SLACK_CHANNEL''))) (greeting c) # log @
     Print (py ''[SLACK] Starting Socket'' @ [8209] @ py ''Mode for channel '' @
            py_str_opt (getenv (py ''SLACK_CHANNEL''))) #
     concat (map (\<lambda>ev. snd (run_event ev e [])) evs)"
  using assms by (auto simp: main_run_apply)


text \<open>C16: without a bot token the process fails fast: \<open>SlackBot()\<close> raises BoltError
  before the greeting, and no event is handled.\<close>

theorem main_run_without_bot_token:
  assumes "getenv (py ''SLACK_BOT_TOKEN'') = None"
  shows "main_run getenv c evs e t = (Inl BoltError, t)"
  using assms by (rule main_run_no_bot_token)

text \<open>C15: without an app token the process does not fail fast: it announces that it is
  online and ready in the channel and prints the start line, and only then raises
  KeyError for \<open>SLACK_APP_TOKEN\<close>, without handling any event.\<close>

theorem main_run_without_app_token:
  assumes "getenv (py ''SLACK_BOT_TOKEN'') \<noteq> None" and "getenv (py ''SLACK_APP_TOKEN'') = None"
  shows "\<exists>log. main_run getenv c evs e t =
     (Inl (KeyError (py ''SLACK_APP_TOKEN'')),
      t @ PostMessage (Channel (getenv (py ''SLACK_CHANNEL''))) (greeting c) # log @
      [Print (py ''[SLACK] Starting Socket'' @ [8209] @ py ''Mode for channel '' @
              py_str_opt (getenv (py ''SLACK_CHANNEL'')))])"
  using assms by (simp add: main_run_apply)


end
