(* ===== verification/EventLoop.thy ===== *)
theory EventLoop
  imports Bot
begin

text \<open>
  The listeners running concurrently. \<open>SlackBot.start\<close> (\<open>slack.py\<close> lines 164--167)
  hands the app to \<open>AsyncSocketModeHandler.start_async\<close>, which reads the inbound
  events from the socket in order and starts one asyncio task per event; the task runs
  the event through Bolt (\<open>run_event\<close>). All tasks share one thread: a task runs
  until it awaits a network call, and only then can another task run. The awaited calls
  that reach the network are the Web API requests (\<open>users.info\<close>,
  \<open>chat.postMessage\<close>, including \<open>say\<close>); \<open>await ack()\<close> only records the
  response in Bolt and does not yield, and \<open>graph.invoke\<close> (lines 98 and 128) is
  called without \<open>await\<close>, so a task does not yield while the agent runs.

  The tasks share no mutable state (the clients and the settings are read-only after
  start-up) and the environment answers every call the same way whenever it is made, so
  the effects of a task are those of \<open>run_event\<close> run alone, \<open>task_effects\<close>; the
  task only decides where it may be interrupted. A state of the loop holds the events
  not yet read, the effects each started task has still to cause, and the effects
  caused so far tagged with the number of their task. \<open>loop_step\<close> is one step of
  the event loop: the receive loop starts the task of the next event, or one task runs
  up to and including its next awaited call (\<open>segment_of\<close>).
\<close>

fun suspends :: "effect \<Rightarrow> bool" where
  "suspends (UsersInfo _) = True"
| "suspends (PostMessage _ _) = True"
| "suspends _ = False"

definition segment_of :: "effect list \<Rightarrow> effect list" where
  "segment_of xs = takeWhile (\<lambda>x. \<not> suspends x) xs @ take 1 (dropWhile (\<lambda>x. \<not> suspends x) xs)"

definition after_await :: "effect list \<Rightarrow> effect list" where
  "after_await xs = drop 1 (dropWhile (\<lambda>x. \<not> suspends x) xs)"

definition task_effects :: "env \<Rightarrow> inbound \<Rightarrow> effect list" where
  "task_effects e ev = snd (run_event ev e [])"

record loop_state =
  ls_inbox :: "inbound list"
  ls_tasks :: "effect list list"
  ls_trace :: "(nat \<times> effect) list"

definition loop_init :: "inbound list \<Rightarrow> loop_state" where
  "loop_init evs = \<lparr>ls_inbox = evs, ls_tasks = [], ls_trace = []\<rparr>"

inductive loop_step :: "env \<Rightarrow> loop_state \<Rightarrow> loop_state \<Rightarrow> bool" where
  deliver: "ls_inbox s = ev # evs \<Longrightarrow>
     loop_step e s (s\<lparr>ls_inbox := evs, ls_tasks := ls_tasks s @ [task_effects e ev]\<rparr>)"
| resume: "i < length (ls_tasks s) \<Longrightarrow> ls_tasks s ! i \<noteq> [] \<Longrightarrow>
     loop_step e s (s\<lparr>ls_tasks := (ls_tasks s)[i := after_await (ls_tasks s ! i)],
                      ls_trace := ls_trace s @ map (Pair i) (segment_of (ls_tasks s ! i))\<rparr>)"

inductive reachable :: "env \<Rightarrow> inbound list \<Rightarrow> loop_state \<Rightarrow> bool" where
  start: "reachable e evs (loop_init evs)"
| step: "reachable e evs s \<Longrightarrow> loop_step e s s' \<Longrightarrow> reachable e evs s'"

text \<open>The same steps as an executable function of the scheduler's choice.\<close>

datatype choice = Deliver | Resume nat

fun loop_choose :: "env \<Rightarrow> choice \<Rightarrow> loop_state \<Rightarrow> loop_state option" where
  "loop_choose e Deliver s =
     (case ls_inbox s of
        [] \<Rightarrow> None
      | ev # evs \<Rightarrow> Some (s\<lparr>ls_inbox := evs, ls_tasks := ls_tasks s @ [task_effects e ev]\<rparr>))"
| "loop_choose e (Resume i) s =
     (if i < length (ls_tasks s) \<and> ls_tasks s ! i \<noteq> []
      then Some (s\<lparr>ls_tasks := (ls_tasks s)[i := after_await (ls_tasks s ! i)],
                   ls_trace := ls_trace s @ map (Pair i) (segment_of (ls_tasks s ! i))\<rparr>)
      else None)"

fun loop_exec :: "env \<Rightarrow> choice list \<Rightarrow> loop_state \<Rightarrow> loop_state option" where
  "loop_exec e [] s = Some s"
| "loop_exec e (c # cs) s = (case loop_choose e c s of None \<Rightarrow> None | Some s' \<Rightarrow> loop_exec e cs s')"

definition own :: "nat \<Rightarrow> (nat \<times> effect) list \<Rightarrow> effect list" where
  "own i tr = map snd (filter (\<lambda>p. fst p = i) tr)"

definition loop_inv :: "env \<Rightarrow> inbound list \<Rightarrow> loop_state \<Rightarrow> bool" where
  "loop_inv e evs s \<longleftrightarrow>
     length (ls_tasks s) \<le> length evs \<and> ls_inbox s = drop (length (ls_tasks s)) evs \<and>
     (\<forall>p \<in> set (ls_trace s). fst p < length (ls_tasks s)) \<and>
     (\<forall>i < length (ls_tasks s). own i (ls_trace s) @ ls_tasks s ! i = task_effects e (evs ! i))"

definition agent_calls_atomic :: "(nat \<times> effect) list \<Rightarrow> bool" where
  "agent_calls_atomic tr \<longleftrightarrow>
     (\<forall>k < length tr. is_agent_call (snd (tr ! k)) \<longrightarrow> Suc k < length tr \<and> fst (tr ! Suc k) = fst (tr ! k))"

lemmas task_effects_simps = task_effects_def run_event_def handle_event_simps

subsection \<open>Segments\<close>

lemma segment_after_await: "segment_of xs @ after_await xs = xs"
  by (simp add: segment_of_def after_await_def)

text \<open>A segment ends at an awaited call unless it is the rest of the task.\<close>

lemma segment_of_last:
  assumes "segment_of xs = ys @ [x]" and "\<not> suspends x"
  shows "xs = ys @ [x]"
proof (cases "dropWhile (\<lambda>x. \<not> suspends x) xs")
  case Nil
  then have "segment_of xs = xs"
    by (metis append_Nil2 segment_of_def take_Nil takeWhile_dropWhile_id)
  then show ?thesis using assms(1) by simp
next
  case (Cons y zs)
  then have "segment_of xs = takeWhile (\<lambda>x. \<not> suspends x) xs @ [y]"
    by (simp add: segment_of_def)
  moreover have "suspends y"
    using Cons hd_dropWhile [of "\<lambda>x. \<not> suspends x" xs] by simp
  ultimately show ?thesis using assms by simp
qed

subsection \<open>Tagged traces\<close>

lemma own_append [simp]: "own i (xs @ ys) = own i xs @ own i ys"
  by (simp add: own_def)

lemma own_tagged [simp]: "own i (map (Pair j) zs) = (if i = j then zs else [])"
  by (induction zs) (auto simp: own_def)

lemma own_Nil [simp]: "own i [] = []"
  by (simp add: own_def)

lemma snd_comp_Pair [simp]: "snd \<circ> Pair i = id"
  by auto

lemma own_fresh: "\<forall>p \<in> set tr. fst p < n \<Longrightarrow> own n tr = []"
  by (auto simp: own_def filter_empty_conv)

lemma drop_eq_ConsD:
  assumes "drop n xs = y # ys"
  shows "n < length xs" and "xs ! n = y" and "drop (Suc n) xs = ys"
proof -
  show "n < length xs" using assms by (metis drop_all leI list.distinct(1))
  then show "xs ! n = y" and "drop (Suc n) xs = ys"
    using assms by (simp_all add: Cons_nth_drop_Suc [symmetric])
qed

subsection \<open>The invariant of the loop\<close>

lemma loop_inv_init: "loop_inv e evs (loop_init evs)"
  by (simp add: loop_inv_def loop_init_def)

lemma loop_inv_deliver:
  assumes inv: "loop_inv e evs s" and ib: "ls_inbox s = ev # evs'"
  shows "loop_inv e evs (s\<lparr>ls_inbox := evs', ls_tasks := ls_tasks s @ [task_effects e ev]\<rparr>)"
proof -
  let ?n = "length (ls_tasks s)"
  have d: "drop ?n evs = ev # evs'" using inv ib by (simp add: loop_inv_def)
  have fresh: "own ?n (ls_trace s) = []" using inv by (simp add: loop_inv_def own_fresh)
  show ?thesis
    using inv drop_eq_ConsD [OF d] fresh
    by (auto simp: loop_inv_def nth_append less_Suc_eq)
qed

lemma loop_inv_resume:
  assumes inv: "loop_inv e evs s" and i: "i < length (ls_tasks s)"
  shows "loop_inv e evs (s\<lparr>ls_tasks := (ls_tasks s)[i := after_await (ls_tasks s ! i)],
                          ls_trace := ls_trace s @ map (Pair i) (segment_of (ls_tasks s ! i))\<rparr>)"
proof -
  have "own i (ls_trace s) @ segment_of (ls_tasks s ! i) @ after_await (ls_tasks s ! i) =
        task_effects e (evs ! i)"
    using inv i by (simp add: loop_inv_def segment_after_await)
  then show ?thesis
    using inv i by (auto simp: loop_inv_def nth_list_update)
qed

lemma loop_step_inv: "loop_step e s s' \<Longrightarrow> loop_inv e evs s \<Longrightarrow> loop_inv e evs s'"
  by (induction rule: loop_step.induct) (simp_all add: loop_inv_deliver loop_inv_resume)

lemma reachable_inv: "reachable e evs s \<Longrightarrow> loop_inv e evs s"
  by (induction rule: reachable.induct) (simp_all add: loop_inv_init loop_step_inv)

subsection \<open>The agent call does not yield\<close>

lemma task_effects_not_ending_in_agent_call: "task_effects e ev \<noteq> xs @ [InvokeAgent q]"
  by (cases ev)
     (auto simp: task_effects_simps split: option.split sum.split if_splits)

lemma pending_not_ending_in_agent_call:
  assumes "loop_inv e evs s" and "i < length (ls_tasks s)"
  shows "ls_tasks s ! i \<noteq> ys @ [InvokeAgent q]"
proof
  assume p: "ls_tasks s ! i = ys @ [InvokeAgent q]"
  from assms have "own i (ls_trace s) @ ls_tasks s ! i = task_effects e (evs ! i)"
    by (simp add: loop_inv_def)
  with p have "task_effects e (evs ! i) = (own i (ls_trace s) @ ys) @ [InvokeAgent q]"
    by simp
  then show False
    using task_effects_not_ending_in_agent_call [of e "evs ! i" "own i (ls_trace s) @ ys" q] by simp
qed

lemma segment_not_ending_in_agent_call:
  assumes "loop_inv e evs s" and "i < length (ls_tasks s)"
  shows "segment_of (ls_tasks s ! i) = [] \<or> \<not> is_agent_call (last (segment_of (ls_tasks s ! i)))"
proof (rule ccontr)
  let ?g = "segment_of (ls_tasks s ! i)"
  assume "\<not> ?thesis"
  then obtain q where ne: "?g \<noteq> []" and l: "last ?g = InvokeAgent q"
    by (cases "last ?g") auto
  then have "?g = butlast ?g @ [InvokeAgent q]" by (metis append_butlast_last_id)
  then have "ls_tasks s ! i = butlast ?g @ [InvokeAgent q]"
    by (rule segment_of_last) simp
  with pending_not_ending_in_agent_call [OF assms] show False by blast
qed

lemma agent_calls_atomic_append:
  assumes at: "agent_calls_atomic tr" and zs: "zs = [] \<or> \<not> is_agent_call (last zs)"
  shows "agent_calls_atomic (tr @ map (Pair i) zs)"
  unfolding agent_calls_atomic_def
proof (intro allI impI)
  fix k
  assume k: "k < length (tr @ map (Pair i) zs)" and a: "is_agent_call (snd ((tr @ map (Pair i) zs) ! k))"
  show "Suc k < length (tr @ map (Pair i) zs) \<and>
        fst ((tr @ map (Pair i) zs) ! Suc k) = fst ((tr @ map (Pair i) zs) ! k)"
  proof (cases "k < length tr")
    case True
    with at a show ?thesis by (auto simp: agent_calls_atomic_def nth_append)
  next
    case False
    then obtain m where m: "k = length tr + m" and mz: "m < length zs"
      using k by (metis add_diff_inverse_nat length_append length_map nat_add_left_cancel_less)
    have "Suc m \<noteq> length zs"
    proof
      assume sm: "Suc m = length zs"
      have "zs \<noteq> []" using mz by auto
      then have "zs ! m = last zs" using sm [symmetric] by (simp add: last_conv_nth)
      with a m zs mz show False by (auto simp: nth_append)
    qed
    with m mz show ?thesis by (simp add: nth_append)
  qed
qed

lemma reachable_agent_calls_atomic: "reachable e evs s \<Longrightarrow> agent_calls_atomic (ls_trace s)"
proof (induction rule: reachable.induct)
  case (start e evs)
  then show ?case by (simp add: loop_init_def agent_calls_atomic_def)
next
  case (step e evs s s')
  from step.prems step.hyps(2) show ?case
  proof (cases rule: loop_step.cases)
    case (resume i)
    have "loop_inv e evs s" using step.hyps(1) by (rule reachable_inv)
    then have "segment_of (ls_tasks s ! i) = [] \<or> \<not> is_agent_call (last (segment_of (ls_tasks s ! i)))"
      using resume(2) by (rule segment_not_ending_in_agent_call)
    with step.IH resume(1) show ?thesis by (simp add: agent_calls_atomic_append)
  qed (use step.IH in simp)
qed

subsection \<open>The executable step function\<close>

lemma loop_step_iff_choose: "loop_step e s s' \<longleftrightarrow> (\<exists>c. loop_choose e c s = Some s')"
proof
  assume "loop_step e s s'"
  then show "\<exists>c. loop_choose e c s = Some s'"
  proof (cases rule: loop_step.cases)
    case (deliver ev evs)
    then show ?thesis by (intro exI [of _ Deliver]) simp
  next
    case (resume i)
    then show ?thesis by (intro exI [of _ "Resume i"]) simp
  qed
next
  assume "\<exists>c. loop_choose e c s = Some s'"
  then obtain c where c: "loop_choose e c s = Some s'" ..
  show "loop_step e s s'"
  proof (cases c)
    case Deliver
    with c show ?thesis by (auto split: list.splits intro: loop_step.deliver)
  next
    case (Resume i)
    with c show ?thesis by (auto split: if_splits intro: loop_step.resume)
  qed
qed

lemma loop_exec_steps: "loop_exec e cs s = Some s' \<Longrightarrow> (loop_step e)\<^sup>*\<^sup>* s s'"
proof (induction cs arbitrary: s)
  case (Cons c cs)
  then obtain s1 where "loop_choose e c s = Some s1" and "loop_exec e cs s1 = Some s'"
    by (auto split: option.splits)
  with Cons.IH show ?case
    by (meson converse_rtranclp_into_rtranclp loop_step_iff_choose)
qed simp

lemma reachable_steps: "(loop_step e)\<^sup>*\<^sup>* s s' \<Longrightarrow> reachable e evs s \<Longrightarrow> reachable e evs s'"
  by (induction rule: rtranclp_induct) (auto intro: reachable.step)

lemma reachable_exec: "loop_exec e cs (loop_init evs) = Some s \<Longrightarrow> reachable e evs s"
  by (blast intro: reachable_steps loop_exec_steps reachable.start)

subsection \<open>Property of the event loop\<close>

text \<open>C6: \<open>graph.invoke\<close> is not awaited, so it blocks the event loop: in every
  interleaving, the effect that follows a task's call of the agent is that task's own
  next effect; no other task runs while the agent works, and two agent calls never
  overlap.\<close>

theorem agent_call_blocks_other_tasks:
  assumes "reachable e evs s" and "k < length (ls_trace s)" and "ls_trace s ! k = (i, InvokeAgent q)"
  shows "Suc k < length (ls_trace s) \<and> fst (ls_trace s ! Suc k) = i"
  using reachable_agent_calls_atomic [OF assms(1)] assms(2,3) by (force simp: agent_calls_atomic_def)

end
