(* ===== verification/Scenarios.thy ===== *)
theory Scenarios
  imports EventLoop
begin

text \<open>
  Concrete Slack workspaces and agent answers, and the theorems of the components
  applied to them: the end-to-end scenarios of the specification (a search for
  "weather in Tokyo" answered with \<open>**Sunny**, 25\<degree>C\<close>, a slash command with an
  empty text, an unknown sender), each a closed instance of a component theorem whose
  hypotheses are discharged by evaluation.
\<close>

definition demo_user :: raw_user where
  "demo_user = \<lparr>ru_id = Some (py ''U1''), ru_name = Some (py ''ann''),
                ru_real_name = Some (py ''Ann Lee''), ru_profile_email = None\<rparr>"

definition demo_answer :: "pystr list" where
  "demo_answer = [py ''thinking'', py ''**Sunny**, 25'' @ [176] @ py ''C'']"

definition workspace :: "(agent_input \<Rightarrow> pystr + pystr list) \<Rightarrow> env" where
  "workspace agent =
     \<lparr>users_api = (\<lambda>u. if u = py ''U1'' then Inr demo_user else Inl (py ''user_not_found'')),
      post_api = (\<lambda>_ _. None), agent_api = agent\<rparr>"

definition demo_env :: env where
  "demo_env = workspace (\<lambda>_. Inr demo_answer)"

definition known_sender :: message_event where
  "known_sender = \<lparr>ev_user = Some (py ''U1''), ev_text = Some (py ''search: weather in Tokyo'')\<rparr>"

definition unknown_sender :: message_event where
  "unknown_sender = \<lparr>ev_user = Some (py ''U9''), ev_text = Some (py ''ping'')\<rparr>"

definition empty_command :: command_body where
  "empty_command = \<lparr>cb_command = py ''/deep-search'', cb_user_id = Some (py ''U1''), cb_text = None\<rparr>"

definition demo_clock :: clock where
  "demo_clock = \<lparr>clk_hour = 9, clk_minute = 5, clk_second = 7, clk_weekday = 0\<rparr>"

text \<open>Runs of the event loop: a search and a ping in flight together, and two pings.\<close>

definition search_then_ping :: "inbound list" where
  "search_then_ping = [MessageEv known_sender, MessageEv unknown_sender]"

text \<open>A process environment with both tokens set and no channel.\<close>

definition demo_environ :: environ where
  "demo_environ = (\<lambda>k. if k = py ''SLACK_BOT_TOKEN'' then Some (py ''xoxb-demo'')
                        else if k = py ''SLACK_APP_TOKEN'' then Some (py ''xapp-demo'') else None)"

definition demo_run :: "inbound list \<Rightarrow> choice list \<Rightarrow> loop_state" where
  "demo_run evs cs = (case loop_exec demo_env cs (loop_init evs) of None \<Rightarrow> loop_init evs | Some s \<Rightarrow> s)"

definition interleaved_schedule :: "choice list" where
  "interleaved_schedule = [Deliver, Resume 0, Resume 0, Resume 0, Deliver, Resume 1, Resume 0, Resume 1, Resume 0]"

lemmas scenario_defs = demo_env_def workspace_def demo_user_def demo_answer_def
  known_sender_def unknown_sender_def empty_command_def

subsection \<open>Witnesses\<close>

theorem handle_search_posts_summary_witness:
  "handle_search known_sender (py ''weather in Tokyo'') demo_env [] =
    (Inr (), [UsersInfo (py ''U1''),
              PostMessage Conversation (submitted_text (Some (py ''Ann Lee'')) (py ''weather in Tokyo'')),
              PostMessage Conversation start_text, InvokeAgent (agent_request (py ''weather in Tokyo'')),
              PostMessage Conversation done_text,
              PostMessage (Channel research_channel) (py ''*Sunny*, 25'' @ [176] @ py ''C'')])"
  using handle_search_posts_summary [of known_sender "py ''U1''" demo_env demo_user
      "py ''weather in Tokyo''" demo_answer "[]"]
  by (simp add: scenario_defs normalize_markdown_unfold post_failure_log_def)

theorem handle_ping_replies_witness:
  "handle_ping unknown_sender demo_env [] =
    (Inr (), [UsersInfo (py ''U9''), Print (py ''[SLACK] user_info failed: %s user_not_found''),
              PostMessage Conversation (py ''Pong! '' @ [129302])])"
  using handle_ping_replies [of unknown_sender "py ''U9''" demo_env "[]"]
  by (simp add: scenario_defs)

theorem handle_search_lookup_failure_witness:
  "handle_search unknown_sender (py ''x'') demo_env [] =
    (Inl TypeError, [UsersInfo (py ''U9''), Print (py ''[SLACK] user_info failed: %s user_not_found'')])"
  using handle_search_lookup_failure_crashes [of unknown_sender "py ''U9''" demo_env "py ''user_not_found''"]
  by (simp add: scenario_defs)

theorem handle_deep_search_lookup_failure_witness:
  "handle_deep_search (empty_command\<lparr>cb_user_id := Some (py ''U9''), cb_text := Some (py ''deep dive on X'')\<rparr>) demo_env [] =
    (Inl TypeError, [Ack, UsersInfo (py ''U9''), Print (py ''[SLACK] user_info failed: %s user_not_found'')])"
  using handle_deep_search_lookup_failure_crashes
      [of "empty_command\<lparr>cb_user_id := Some (py ''U9''), cb_text := Some (py ''deep dive on X'')\<rparr>"
          "py ''U9''" demo_env "py ''user_not_found''"]
  by (simp add: scenario_defs)

theorem handle_deep_search_posts_summary_witness:
  "handle_deep_search empty_command demo_env [] =
    (Inr (), [Ack, UsersInfo (py ''U1''), PostMessage Conversation (submitted_text (Some (py ''Ann Lee'')) []),
              PostMessage Conversation start_text, InvokeAgent (agent_request []),
              PostMessage Conversation done_text,
              PostMessage (Channel research_channel) (py ''*Sunny*, 25'' @ [176] @ py ''C'')])"
  using handle_deep_search_posts_summary [of empty_command "py ''U1''" demo_env demo_user demo_answer "[]"]
  by (simp add: scenario_defs command_text_def normalize_markdown_unfold post_failure_log_def)

theorem handle_search_agent_failure_witness:
  "handle_search known_sender (py ''q'') (workspace (\<lambda>_. Inl (py ''timeout''))) [] =
    (Inl (AgentError (py ''timeout'')),
     [UsersInfo (py ''U1''), PostMessage Conversation (submitted_text (Some (py ''Ann Lee'')) (py ''q'')),
      PostMessage Conversation start_text, InvokeAgent (agent_request (py ''q''))])"
  using handle_search_agent_failure [of known_sender "py ''U1''" "workspace (\<lambda>_. Inl (py ''timeout''))"
      demo_user "py ''q''" "py ''timeout''" "[]"]
  by (simp add: scenario_defs)

theorem handle_search_empty_answer_witness:
  "handle_search known_sender (py ''q'') (workspace (\<lambda>_. Inr [])) [] =
    (Inl IndexError,
     [UsersInfo (py ''U1''), PostMessage Conversation (submitted_text (Some (py ''Ann Lee'')) (py ''q'')),
      PostMessage Conversation start_text, InvokeAgent (agent_request (py ''q'')),
      PostMessage Conversation done_text])"
  using handle_search_empty_answer [of known_sender "py ''U1''" "workspace (\<lambda>_. Inr [])"
      demo_user "py ''q''" "[]"]
  by (simp add: scenario_defs)

theorem dispatch_message_witness:
  "dispatch (MessageEv (known_sender\<lparr>ev_text := Some (py ''shipping update'')\<rparr>)) = Some PingListener"
  using dispatch_message [of "known_sender\<lparr>ev_text := Some (py ''shipping update'')\<rparr>" "py ''shipping update''"]
  by (simp add: sublist_Cons_right)

theorem handle_event_search_refines_witness:
  "handle_event (MessageEv known_sender) = handle_search known_sender (py ''weather in Tokyo'')"
  using handle_event_search_refines [of known_sender "py ''search: weather in Tokyo''"]
  by (simp add: known_sender_def search_prefix_def inline_query_def sublist_Cons_right py_isspace_def)

theorem handle_event_message_without_user_witness:
  "handle_event (MessageEv \<lparr>ev_user = None, ev_text = Some (py ''ping from a bot'')\<rparr>) demo_env [] =
     (Inl (KeyError (py ''user'')), [])"
  using handle_event_message_without_user [of "\<lparr>ev_user = None, ev_text = Some (py ''ping from a bot'')\<rparr>"
      "py ''ping from a bot''" demo_env "[]"]
  by (simp add: sublist_Cons_right)

theorem search_query_captured_witness:
  "(case re_match search_rx (search_prefix @ [32, 9] @ py ''weather in Tokyo'' @ [NL] @ py ''and Osaka'') of
      None \<Rightarrow> None | Some gs \<Rightarrow> re_group gs 1) = Some (py ''weather in Tokyo'')"
  using search_query_captured [of "[32, 9]" "py ''weather in Tokyo''" "[NL] @ py ''and Osaka''"]
  by (simp add: py_isspace_def)


theorem main_run_startup_order_witness:
  "\<exists>log. snd (main_run demo_environ demo_clock [MessageEv unknown_sender] demo_env []) =
     PostMessage (Channel None) (greeting demo_clock) # log @
     Print (py ''[SLACK] Starting Socket'' @ [8209] @ py ''Mode for channel None'') #
     snd (run_event (MessageEv unknown_sender) demo_env [])"
  using main_run_startup_order [of demo_environ demo_clock "[MessageEv unknown_sender]" demo_env "[]"]
  by (simp add: demo_environ_def py_str_opt_def)


theorem main_run_without_bot_token_witness:
  "main_run (\<lambda>_. None) demo_clock [MessageEv unknown_sender] demo_env [] = (Inl BoltError, [])"
  using main_run_without_bot_token [of "\<lambda>_. None" demo_clock "[MessageEv unknown_sender]" demo_env "[]"]
  by simp

theorem main_run_without_app_token_witness:
  "\<exists>log. main_run (demo_environ(py ''SLACK_APP_TOKEN'' := None)) demo_clock [MessageEv unknown_sender]
       demo_env [] =
     (Inl (KeyError (py ''SLACK_APP_TOKEN'')),
      PostMessage (Channel None) (greeting demo_clock) # log @
      [Print (py ''[SLACK] Starting Socket'' @ [8209] @ py ''Mode for channel None'')])"
  using main_run_without_app_token [of "demo_environ(py ''SLACK_APP_TOKEN'' := None)" demo_clock
      "[MessageEv unknown_sender]" demo_env "[]"]
  by (simp add: demo_environ_def py_str_opt_def)

subsection \<open>Runs of the event loop\<close>

lemmas scenario_effect_simps = task_effects_simps scenario_defs

lemma known_sender_effects:
  "task_effects demo_env (MessageEv known_sender) =
     [UsersInfo (py ''U1''),
      PostMessage Conversation (submitted_text (Some (py ''Ann Lee'')) (py ''weather in Tokyo'')),
      PostMessage Conversation start_text, InvokeAgent (agent_request (py ''weather in Tokyo'')),
      PostMessage Conversation done_text,
      PostMessage (Channel research_channel) (py ''*Sunny*, 25'' @ [176] @ py ''C'')]"
  by (simp add: scenario_effect_simps inline_query_def search_prefix_def sublist_Cons_right
      normalize_markdown_unfold py_isspace_def)

lemma ping_effects:
  "task_effects demo_env (MessageEv unknown_sender) =
     [UsersInfo (py ''U9''), Print (py ''[SLACK] user_info failed: %s user_not_found''),
      PostMessage Conversation (py ''Pong! '' @ [129302])]"
  by (simp add: scenario_effect_simps ping_text_def py_str_opt_def sublist_Cons_right)

lemmas loop_run_simps = demo_run_def loop_init_def segment_of_def after_await_def
  known_sender_effects ping_effects search_then_ping_def

lemma interleaved_run_exec:
  "loop_exec demo_env interleaved_schedule (loop_init search_then_ping) =
     Some (demo_run search_then_ping interleaved_schedule)"
  by (simp add: interleaved_schedule_def loop_run_simps)

lemma interleaved_run_trace:
  "ls_trace (demo_run search_then_ping interleaved_schedule) =
     [(0, UsersInfo (py ''U1'')),
      (0, PostMessage Conversation (submitted_text (Some (py ''Ann Lee'')) (py ''weather in Tokyo''))),
      (0, PostMessage Conversation start_text), (1, UsersInfo (py ''U9'')),
      (0, InvokeAgent (agent_request (py ''weather in Tokyo''))), (0, PostMessage Conversation done_text),
      (1, Print (py ''[SLACK] user_info failed: %s user_not_found'')),
      (1, PostMessage Conversation (py ''Pong! '' @ [129302])),
      (0, PostMessage (Channel research_channel) (py ''*Sunny*, 25'' @ [176] @ py ''C''))]"
  by (simp add: interleaved_schedule_def loop_run_simps)

lemma interleaved_run_reachable:
  "reachable demo_env search_then_ping (demo_run search_then_ping interleaved_schedule)"
  by (rule reachable_exec) (rule interleaved_run_exec)

theorem agent_call_blocks_other_tasks_witness:
  "ls_trace (demo_run search_then_ping interleaved_schedule) ! 4 =
     (0, InvokeAgent (agent_request (py ''weather in Tokyo''))) \<and>
   fst (ls_trace (demo_run search_then_ping interleaved_schedule) ! 5) = 0"
  using agent_call_blocks_other_tasks [OF interleaved_run_reachable, of 4 0
      "agent_request (py ''weather in Tokyo'')"]
  by (simp add: interleaved_run_trace)

end
