(* ===== verification/Spec2Isabelle.thy ===== *)
theory Spec2Isabelle
  imports Scenarios
begin

text \<open>
  A verification development of DeepSearchSlackBot, a Slack bot that relays research
  queries to an external agent graph and posts the agent's answer to a channel.

  \<^bold>\<open>The program.\<close> \<open>src/main.py\<close> builds a \<open>SlackBot\<close> from the three values of
  \<open>src/settings.py\<close>, posts a time-stamped greeting and starts Bolt's socket-mode
  listener. \<open>src/src/tools/slack.py\<close> holds \<open>SlackClient\<close> (a user lookup and a
  channel post, each catching \<open>SlackApiError\<close>), \<open>CommandHandler\<close> (the ping,
  inline-search and slash-command handlers) and \<open>SlackBot\<close> (the three routes, the
  inline-search adapter, the start-up). The agent (\<open>graph.invoke\<close>, in \<open>src/agent\<close>,
  not part of the sources) and the Slack platform are the environment.

  \<^bold>\<open>The theories\<close>, in import order.
  \<^item> \<open>Prelude\<close>: Python strings as lists of code points (\<open>pystr\<close>, literals
    \<open>py ''...''\<close>, emoji by number), \<open>str.isspace\<close> (\<open>py_isspace\<close>), shared list
    lemmas, and the collections \<open>re_simps\<close> and \<open>act_simps\<close>.
  \<^item> \<open>SlackClient\<close> (slack.py 9--34): the effect model. An action \<open>'a act\<close> reads a
    read-only environment \<open>env\<close> (the answers of \<open>users.info\<close>,
    \<open>chat.postMessage\<close> and the agent), appends the effects it causes (\<open>effect\<close>:
    lookups, posts, prints, acknowledgments, agent calls, listener errors) to a trace, and
    ends with a value or a Python exception (\<open>exn\<close>); \<open>catch\<close> is
    \<open>try/except\<close>. \<open>get_user_info\<close> and \<open>send_message\<close> are the two methods with
    their except branches; \<open>_apply\<close> lemmas evaluate every call.
  \<^item> \<open>PyRe\<close>: the fragment of Python's \<open>re\<close> the code relies on, as a backtracking
    matcher \<open>ms\<close> listing the matches of a pattern in the order \<open>sre\<close> tries them
    (greedy repetition longest first); \<open>re_match\<close>, and \<open>re_sub\<close> and
    \<open>re_findall\<close> over the search loop \<open>scan\<close>, a \<open>function\<close> whose termination
    is proved by the length of the rest of the input and which follows the empty-match
    rule of Python 3.7 and later. The first-match rules (\<open>first_ms_*\<close>) compute what
    \<open>re\<close> reports.
  \<^item> \<open>Markdown\<close> (slack.py 110, 139): \<open>normalize_markdown\<close>, the call
    \<open>re.sub(r'\*{2,}', '*', ...)\<close>, proved equal to the specification \<open>squeeze\<close>
    (drop every marker that follows a marker), idempotent, free of \<open>**\<close>, keeping all
    other text, and the identity exactly on texts without \<open>**\<close>.
  \<^item> \<open>Handlers\<close> (slack.py 76--139): \<open>handle_ping\<close>, \<open>handle_search\<close>,
    \<open>handle_deep_search\<close> and their shared tail \<open>research_and_post\<close>, every await
    and every exception path; the lemmas give the trace and the outcome of each branch.
  \<^item> \<open>Router\<close> (slack.py 150--159): Bolt's dispatch over the listeners in the order
    \<open>_setup_routes\<close> registers them, first match wins, with Bolt's matchers (a
    message keyword, string or pattern, is searched with \<open>re.findall\<close>; a command is
    compared for equality), \<open>_search_message_handler\<close>, and \<open>handle_event\<close>, the
    handling of one inbound event. The query of the inline search is proved to be
    \<open>inline_query\<close>, the specification's remainder after the prefix and whitespace,
    up to the first line break, and \<open>group(1)\<close> of the code's pattern is shown to
    give back a typed one-line query.
  \<^item> \<open>Bot\<close> (settings.py, main.py, slack.py 142--167): \<open>load_dotenv\<close> and the
    settings, the \<open>SlackBot\<close> record with its client and handler (the constructors of
    \<open>SlackClient\<close> and \<open>CommandHandler\<close> are in their theories), built by an action
    that raises BoltError when Bolt's \<open>AsyncApp\<close> gets no bot token,
    \<open>send_to_channel\<close>, \<open>start\<close> (which raises KeyError when
    \<open>AsyncSocketModeHandler\<close> finds no app token), the \<open>strftime\<close> time stamp
    (\<open>format_time\<close>) with a parser of its format (\<open>parse_stamp\<close>), \<open>main_run\<close>,
    and Bolt's loop
    \<open>serve\<close>, which handles events one after the other and logs a listener's exception
    (\<open>run_event\<close>). Every handler is trace-local (\<open>handle_event_local\<close>), so the
    effects of a run are the concatenation of the effects of its events.
  \<^item> \<open>EventLoop\<close> (slack.py 164--167 and the handlers' awaits): the socket-mode
    handler started by \<open>start\<close> runs one asyncio task per inbound event on one thread.
    \<open>loop_step\<close> is an inductive step relation on \<open>loop_state\<close> (unread events, the
    effects each started task has still to cause, the trace tagged by task): the receive
    loop starts the next event's task, or one task runs up to and including its next
    awaited call (\<open>segment_of\<close>; \<open>suspends\<close> names the awaited calls, and
    \<open>graph.invoke\<close>, called without \<open>await\<close>, is not one). \<open>loop_choose\<close> and
    \<open>loop_exec\<close> are the same steps as an executable function of the scheduler's
    choice, used to build concrete runs. The scheduler is a model of asyncio and Bolt
    (specification section 5), not code of the repository; what it shows of the code is
    where the code yields. The lemmas: the invariant \<open>loop_inv\<close> by rule induction
    over \<open>reachable\<close>, and the atomicity of the agent call in every interleaving.
  \<^item> \<open>Scenarios\<close>: concrete workspaces (\<open>demo_env\<close>, a known and an unknown sender,
    a clock, a process environment, a run of the event loop with a search and a ping in
    flight together) and the witnesses: each theorem with hypotheses applied to them.
  \<^item> This theory: the bounds on what one event causes, over \<open>handle_event\<close>.

  \<^bold>\<open>What is proved.\<close> Functional behaviour of every handler on every branch;
  errors as values (TypeError on a failed lookup, KeyError on a message without a
  sender, IndexError on an empty answer, an
  agent failure propagated, a failed post only logged); the routing function of Bolt
  over the three listeners; the equivalence of the regular-expression calls with their
  closed forms; round trips (the captured query, the time stamp against its format); an
  invariant for every event and environment (at most one lookup, at most one agent call,
  no post to another named channel); the start-up with and without each setting; for
  the concurrent loop, that the agent call blocks every other task. No fuel is needed:
  every loop of the model (\<open>scan\<close>, \<open>serve\<close>, \<open>squeeze\<close>) is structural or has
  a measure.

  \<^bold>\<open>Findings.\<close> A failed lookup of the sender makes both search handlers raise
  TypeError (no fallback name, unlike the ping handler); the ping route matches any text
  containing "ping" and is tried first, so a search mentioning "shipping" gets a Pong;
  the captured query stops at the first line break; an empty agent answer raises
  IndexError; a missing \<open>SLACK_CHANNEL\<close> is not detected; a missing
  \<open>SLACK_APP_TOKEN\<close> is found only after the bot has announced that it is online,
  while a missing bot token fails fast; the lookup failure is
  logged with a literal \<open>%s\<close>; \<open>graph.invoke\<close> is synchronous, so while the agent
  works no other event is handled and agent calls never overlap, where the
  specification has tasks interleave at the agent invocation; in particular a slash
  command read while a search calls the agent is acknowledged only after the agent
  returns, outside the acknowledgment window the specification requires.

  \<^bold>\<open>Not modelled.\<close> The Slack transport (socket mode, envelopes, retries), the
  agent's reasoning (an oracle of the environment), the wall clock (a parameter), the
  \<open>mrkdwn\<close> flags of the posts (they do not change which text is sent), the
  commented-out \<open>send_file\<close>, and a failed connection of \<open>start_async\<close> (the
  transport). An empty token string is treated as a token. In the event loop the environment answers a call the
  same way whenever it is made (Slack's and the agent's answers do not depend on the
  interleaving), and durations are not modelled: the blocking of the agent call is
  shown as the absence of any other task's effect between the call and its task's
  next effect.

  Bolt's middleware before dispatch (dropping the bot's own messages, the subtypes a
  message listener accepts, the socket-mode envelope acknowledgment) is library code:
  the inbound events of the model are those that reach the listeners.

  \<^bold>\<open>Extent.\<close> Every function, method and route of the three source files is
  modelled. The lines of the sources no definition translates are imports, blank lines
  and the commented-out \<open>send_file\<close> of \<open>slack.py\<close> (lines 36--74), which is not
  part of the program. The rules the proofs share are collected in bundles:
  \<open>act_simps\<close> (the effect monad), \<open>re_simps\<close> (the matcher), \<open>handler_simps\<close>,
  \<open>handle_event_simps\<close> and \<open>task_effects_simps\<close> (one event, branch by branch),
  and \<open>loop_run_simps\<close> (runs of the event loop in the scenarios).
\<close>

section \<open>Properties of the whole bot\<close>

text \<open>Effects of one event on the named channels: only the research channel.\<close>

fun stray_post :: "effect \<Rightarrow> bool" where
  "stray_post (PostMessage (Channel c) _) = (c \<noteq> research_channel)"
| "stray_post _ = False"

text \<open>C5: whatever the event and whatever Slack and the agent answer, handling one
  event looks the sender up at most once, calls the agent at most once, and posts to
  no named channel other than ai-powered-services.\<close>

theorem handle_event_effect_bounds:
  "\<exists>out. snd (handle_event ev e t) = t @ out \<and> length (filter is_lookup out) \<le> 1 \<and>
         length (filter is_agent_call out) \<le> 1 \<and> list_all (\<lambda>x. \<not> stray_post x) out"
  by (cases ev)
     (auto simp: handle_event_simps split: option.split sum.split)

end
